theory Spec2Isabelle
  imports Main
begin

section \<open>JavaScript values\<close>

text \<open>
  The services of \<^verbatim>\<open>src/server/services/common.js\<close> work on plain JavaScript values:
  comments, query criteria, pagination and configuration documents are objects. An object
  is an association list in insertion order; a property that is missing reads as
  \<^verbatim>\<open>undefined\<close>. The numbers of this file are identifiers, counts, pages and offsets:
  \<open>JNum n\<close> is the double that holds the integer \<open>n\<close>, beside \<^verbatim>\<open>NaN\<close> and the two
  infinities; \<^verbatim>\<open>-0\<close> is identified with \<^verbatim>\<open>0\<close>. Every integer up to \<open>2^53\<close> in
  magnitude is a double, and the text of a number (\<open>show_int\<close>) is its decimal numeral
  in that range; beyond it JavaScript prints the shortest numeral that reads back as the
  double, with an exponent from \<open>10^21\<close> on.
\<close>

datatype jsval =
    JUndefined
  | JNull
  | JBool bool
  | JNum int
  | JNaN
  | JInf bool
  | JStr string
  | JArr "jsval list"
  | JObj "(string \<times> jsval) list"

text \<open>What a rejected promise or a \<^verbatim>\<open>throw\<close> carries: the plugin's own
  \<^verbatim>\<open>PluginError(status, message, payload)\<close>, an error of the data store, or the
  \<^verbatim>\<open>TypeError\<close> of a property read on \<^verbatim>\<open>undefined\<close> or \<^verbatim>\<open>null\<close>.\<close>

datatype error =
    PluginError int string jsval
  | StoreError string
  | TypeError

type_synonym 'a result = "error + 'a"

definition bindR :: "'a result \<Rightarrow> ('a \<Rightarrow> 'b result) \<Rightarrow> 'b result" where
  "bindR r f = (case r of Inl e \<Rightarrow> Inl e | Inr x \<Rightarrow> f x)"

text \<open>\<^verbatim>\<open>Promise.all(xs.map(f))\<close> and a synchronous \<^verbatim>\<open>xs.map(f)\<close> whose callback may
  throw: the first failure is the failure of the whole.\<close>

fun mapM :: "('a \<Rightarrow> 'b result) \<Rightarrow> 'a list \<Rightarrow> 'b list result" where
  "mapM f [] = Inr []"
| "mapM f (x # xs) =
     (case f x of
        Inl e \<Rightarrow> Inl e
      | Inr y \<Rightarrow> (case mapM f xs of Inl e \<Rightarrow> Inl e | Inr ys \<Rightarrow> Inr (y # ys)))"

text \<open>Truthiness, as \<^verbatim>\<open>if (v)\<close>, \<^verbatim>\<open>v && w\<close> and \<^verbatim>\<open>v || w\<close> test it.\<close>

fun truthy :: "jsval \<Rightarrow> bool" where
  "truthy JUndefined = False"
| "truthy JNull = False"
| "truthy (JBool b) = b"
| "truthy (JNum n) = (n \<noteq> 0)"
| "truthy JNaN = False"
| "truthy (JInf _) = True"
| "truthy (JStr s) = (s \<noteq> [])"
| "truthy (JArr _) = True"
| "truthy (JObj _) = True"

definition js_or :: "jsval \<Rightarrow> jsval \<Rightarrow> jsval" where
  "js_or a b = (if truthy a then a else b)"

text \<open>lodash \<^verbatim>\<open>isNil\<close>, \<^verbatim>\<open>isObject\<close>, \<^verbatim>\<open>isString\<close>, \<^verbatim>\<open>isArray\<close> and \<^verbatim>\<open>isNumber\<close>.
  \<^verbatim>\<open>isNumber\<close> classifies \<^verbatim>\<open>NaN\<close> and the infinities as numbers.\<close>

fun isNil :: "jsval \<Rightarrow> bool" where
  "isNil JUndefined = True"
| "isNil JNull = True"
| "isNil _ = False"

fun isObject :: "jsval \<Rightarrow> bool" where
  "isObject (JObj _) = True"
| "isObject (JArr _) = True"
| "isObject _ = False"

fun isString :: "jsval \<Rightarrow> bool" where
  "isString (JStr _) = True"
| "isString _ = False"

fun isArray :: "jsval \<Rightarrow> bool" where
  "isArray (JArr _) = True"
| "isArray _ = False"

fun isNumber :: "jsval \<Rightarrow> bool" where
  "isNumber (JNum _) = True"
| "isNumber JNaN = True"
| "isNumber (JInf _) = True"
| "isNumber _ = False"

subsection \<open>Numbers as text\<close>

definition digit_char :: "nat \<Rightarrow> char" where
  "digit_char d = ''0123456789'' ! (d mod 10)"

fun digits :: "nat \<Rightarrow> string" where
  "digits n = (if n < 10 then [digit_char n] else digits (n div 10) @ [digit_char (n mod 10)])"

declare digits.simps [simp del]

definition show_int :: "int \<Rightarrow> string" where
  "show_int i = (if i < 0 then CHR ''-'' # digits (nat (- i)) else digits (nat i))"

fun join :: "string \<Rightarrow> string list \<Rightarrow> string" where
  "join sep [] = []"
| "join sep [x] = x"
| "join sep (x # y # ys) = x @ sep @ join sep (y # ys)"

text \<open>The string of a value in a template literal or a concatenation (\<^verbatim>\<open>String(v)\<close>).
  An array joins its elements with commas, \<^verbatim>\<open>null\<close> and \<^verbatim>\<open>undefined\<close> elements
  as empty strings.\<close>

fun js_String :: "jsval \<Rightarrow> string" where
  "js_String JUndefined = ''undefined''"
| "js_String JNull = ''null''"
| "js_String (JBool b) = (if b then ''true'' else ''false'')"
| "js_String (JNum n) = show_int n"
| "js_String JNaN = ''NaN''"
| "js_String (JInf b) = (if b then ''Infinity'' else ''-Infinity'')"
| "js_String (JStr s) = s"
| "js_String (JArr xs) = join '','' (map (\<lambda>x. if isNil x then [] else js_String x) xs)"
| "js_String (JObj _) = ''[object Object]''"

text \<open>lodash \<^verbatim>\<open>toString\<close>: \<^verbatim>\<open>null\<close> and \<^verbatim>\<open>undefined\<close> give the empty string, an array
  the comma-joined \<^verbatim>\<open>baseToString\<close> of its elements.\<close>

fun baseToString :: "jsval \<Rightarrow> string" where
  "baseToString (JStr s) = s"
| "baseToString (JArr xs) = join '','' (map baseToString xs)"
| "baseToString v = js_String v"

definition lodash_toString :: "jsval \<Rightarrow> string" where
  "lodash_toString v = (if isNil v then [] else baseToString v)"

subsection \<open>\<^verbatim>\<open>parseInt\<close>\<close>

text \<open>lodash \<^verbatim>\<open>parseInt(v)\<close> is the native \<^verbatim>\<open>parseInt\<close> of \<^verbatim>\<open>toString(v)\<close> with radix 0:
  leading white space is skipped, a sign is read, a \<^verbatim>\<open>0x\<close> prefix selects base 16, and
  the longest prefix of digits is read; the result is the double nearest to its value,
  and \<^verbatim>\<open>NaN\<close> when there is no digit. \<open>is_space\<close> is the white space of ASCII;
  JavaScript also skips the white space beyond ASCII (\<^verbatim>\<open>U+00A0\<close>, \<^verbatim>\<open>U+FEFF\<close> and
  the like).\<close>

definition is_space :: "char \<Rightarrow> bool" where
  "is_space c = (c \<in> set [CHR '' '', CHR 0x09, CHR 0x0A, CHR 0x0B, CHR 0x0C, CHR 0x0D])"

definition digit_val :: "char \<Rightarrow> nat option" where
  "digit_val c =
     (let n = of_char c :: nat in
      if 48 \<le> n \<and> n \<le> 57 then Some (n - 48)
      else if 97 \<le> n \<and> n \<le> 122 then Some (n - 87)
      else if 65 \<le> n \<and> n \<le> 90 then Some (n - 55)
      else None)"

definition is_digit :: "nat \<Rightarrow> char \<Rightarrow> bool" where
  "is_digit radix c = (case digit_val c of None \<Rightarrow> False | Some d \<Rightarrow> d < radix)"

text \<open>The double nearest to an integer, a tie going to the even mantissa of 53 bits, and
  an infinity beyond the range of the doubles. \<^verbatim>\<open>parseInt\<close> and the arithmetic of
  JavaScript give this double for the integer they compute.\<close>

fun bit_length :: "nat \<Rightarrow> nat" where
  "bit_length n = (if n = 0 then 0 else Suc (bit_length (n div 2)))"

declare bit_length.simps [simp del]

definition nearest_double :: "nat \<Rightarrow> nat option" where
  "nearest_double m =
     (let e = bit_length m - 53;
          q = m div 2 ^ e;
          r = m mod 2 ^ e;
          mantissa = (if 2 ^ e < 2 * r \<or> (2 * r = 2 ^ e \<and> odd q) then q + 1 else q)
      in if 2 ^ 1024 \<le> mantissa * 2 ^ e then None else Some (mantissa * 2 ^ e))"

definition number :: "int \<Rightarrow> jsval" where
  "number i =
     (if \<bar>i\<bar> \<le> 9007199254740992 then JNum i
      else case nearest_double (nat \<bar>i\<bar>) of
             None \<Rightarrow> JInf (0 < i)
           | Some m \<Rightarrow> JNum (if i < 0 then - int m else int m))"

definition digits_value :: "nat \<Rightarrow> string \<Rightarrow> nat" where
  "digits_value radix ds = foldl (\<lambda>acc c. acc * radix + (case digit_val c of Some d \<Rightarrow> d | None \<Rightarrow> 0)) 0 ds"

definition parse_digits :: "nat \<Rightarrow> bool \<Rightarrow> string \<Rightarrow> jsval" where
  "parse_digits radix neg s =
     (let ds = takeWhile (is_digit radix) s in
      if ds = [] then JNaN
      else number (if neg then - int (digits_value radix ds) else int (digits_value radix ds)))"

definition strip_hex :: "string \<Rightarrow> string option" where
  "strip_hex s =
     (case s of
        c0 # c1 # rest \<Rightarrow>
          if c0 = CHR ''0'' \<and> (c1 = CHR ''x'' \<or> c1 = CHR ''X'') then Some rest else None
      | _ \<Rightarrow> None)"

definition parseInt_string :: "string \<Rightarrow> jsval" where
  "parseInt_string s =
     (let s1 = dropWhile is_space s;
          neg = (s1 \<noteq> [] \<and> hd s1 = CHR ''-'');
          s2 = (if s1 \<noteq> [] \<and> (hd s1 = CHR ''-'' \<or> hd s1 = CHR ''+'') then tl s1 else s1)
      in case strip_hex s2 of
           Some rest \<Rightarrow> parse_digits 16 neg rest
         | None \<Rightarrow> parse_digits 10 neg s2)"

text \<open>The characters of a decimal numeral.\<close>

definition decimal :: "char \<Rightarrow> bool" where
  "decimal c = (c \<in> set ''0123456789'')"

definition parseInt :: "jsval \<Rightarrow> jsval" where
  "parseInt v = parseInt_string (lodash_toString v)"

subsection \<open>Objects\<close>

text \<open>\<^verbatim>\<open>o.k\<close> under optional chaining, and for an \<open>o\<close> that is known not to be
  \<^verbatim>\<open>null\<close> or \<^verbatim>\<open>undefined\<close>; \<open>member\<close> is the plain read that throws on those.\<close>

fun get_prop :: "string \<Rightarrow> jsval \<Rightarrow> jsval" where
  "get_prop k (JObj kvs) = (case map_of kvs k of Some v \<Rightarrow> v | None \<Rightarrow> JUndefined)"
| "get_prop k _ = JUndefined"

definition member :: "jsval \<Rightarrow> string \<Rightarrow> jsval result" where
  "member v k = (if isNil v then Inl TypeError else Inr (get_prop k v))"

text \<open>The own enumerable properties that an object spread \<^verbatim>\<open>{...v}\<close> copies.\<close>

fun entries_from :: "nat \<Rightarrow> jsval list \<Rightarrow> (string \<times> jsval) list" where
  "entries_from i [] = []"
| "entries_from i (x # xs) = (digits i, x) # entries_from (Suc i) xs"

fun own_entries :: "jsval \<Rightarrow> (string \<times> jsval) list" where
  "own_entries (JObj kvs) = kvs"
| "own_entries (JArr xs) = entries_from 0 xs"
| "own_entries (JStr s) = entries_from 0 (map (\<lambda>c. JStr [c]) s)"
| "own_entries _ = []"

text \<open>Assigning a property keeps the position of a key that exists and appends a new
  one; \<^verbatim>\<open>{...a, ...b}\<close> assigns the properties of \<open>b\<close> in order.\<close>

fun assign :: "string \<Rightarrow> 'a \<Rightarrow> (string \<times> 'a) list \<Rightarrow> (string \<times> 'a) list" where
  "assign k v [] = [(k, v)]"
| "assign k v ((k', v') # kvs) = (if k' = k then (k, v) # kvs else (k', v') # assign k v kvs)"

definition assign_all :: "(string \<times> jsval) list \<Rightarrow> (string \<times> jsval) list \<Rightarrow> (string \<times> jsval) list" where
  "assign_all kvs new = foldl (\<lambda>acc (k, v). assign k v acc) kvs new"

text \<open>\<^verbatim>\<open>[a, b] = xs\<close>: a position beyond the end reads as \<^verbatim>\<open>undefined\<close>.\<close>

definition element :: "jsval list \<Rightarrow> nat \<Rightarrow> jsval" where
  "element xs i = (if i < length xs then xs ! i else JUndefined)"

text \<open>\<^verbatim>\<open>s.split(c)\<close> for a one-character separator.\<close>

fun split_on :: "char \<Rightarrow> string \<Rightarrow> string list" where
  "split_on c [] = [[]]"
| "split_on c (x # xs) =
     (if x = c then [] # split_on c xs
      else (case split_on c xs of [] \<Rightarrow> [[x]] | y # ys \<Rightarrow> (x # y) # ys))"

text \<open>lodash \<^verbatim>\<open>castPath\<close>: a path given as an array is its keys; a string without a
  dot, or one that is a key of the object, is a single key; any other string is split at
  its dots. lodash also reads the bracket syntax of a path (\<^verbatim>\<open>a[0]\<close> is the path
  \<^verbatim>\<open>a\<close>, \<^verbatim>\<open>0\<close>); this definition is \<^verbatim>\<open>castPath\<close> on the strings without
  brackets, and what is proved with it is stated for such strings (\<open>object_key\<close>
  below).\<close>

definition castPath :: "jsval \<Rightarrow> (string \<times> jsval) list \<Rightarrow> string list" where
  "castPath path obj =
     (case path of
        JArr ks \<Rightarrow> map js_String ks
      | JStr s \<Rightarrow> if CHR ''.'' \<notin> set s \<or> s \<in> set (map fst obj) then [s] else split_on CHR ''.'' s
      | v \<Rightarrow> [js_String v])"

text \<open>lodash \<^verbatim>\<open>get(object, path, defaultValue)\<close>: the walk stops at \<^verbatim>\<open>null\<close> or
  \<^verbatim>\<open>undefined\<close>, an empty path and an unresolved one give the default.\<close>

fun baseGet :: "jsval \<Rightarrow> string list \<Rightarrow> jsval" where
  "baseGet v [] = v"
| "baseGet v (k # ks) =
     (if isNil v then JUndefined
      else baseGet (case map_of (own_entries v) k of Some x \<Rightarrow> x | None \<Rightarrow> JUndefined) ks)"

definition lodash_get :: "jsval \<Rightarrow> jsval \<Rightarrow> jsval \<Rightarrow> jsval" where
  "lodash_get object path defaultValue =
     (let keys = castPath path (own_entries object);
          result = (if isNil object \<or> keys = [] then JUndefined else baseGet object keys)
      in if result = JUndefined then defaultValue else result)"

text \<open>lodash \<^verbatim>\<open>set(object, path, value)\<close> on an object: every key of the path but the
  last is given an object (the one that is there, or a new one), the last key the value.
  At one of the keys \<^verbatim>\<open>__proto__\<close>, \<^verbatim>\<open>constructor\<close> and \<^verbatim>\<open>prototype\<close> lodash
  stops and leaves what is there.

  lodash does more than this definition where a key is an array index (the key before
  it is given an array), where the value that is there is an array, and where a key
  names a property that every object inherits (\<^verbatim>\<open>toString\<close> and the like, whose
  inherited value is then what is there). \<open>object_key\<close> holds of the keys that are
  none of these, nor reserved, and have no bracket: on paths of such keys, set on objects
  built from such paths, \<open>baseSet\<close> is lodash \<^verbatim>\<open>set\<close>, and what is proved with it is
  stated for such keys.\<close>

definition reserved_key :: "string \<Rightarrow> bool" where
  "reserved_key k = (k \<in> set [''__proto__'', ''constructor'', ''prototype''])"




fun baseSet :: "(string \<times> jsval) list \<Rightarrow> string list \<Rightarrow> jsval \<Rightarrow> (string \<times> jsval) list" where
  "baseSet obj [] v = obj"
| "baseSet obj [k] v = (if reserved_key k then obj else assign k v obj)"
| "baseSet obj (k # k' # ks) v =
     (if reserved_key k then obj
      else assign k
             (JObj (baseSet (case map_of obj k of Some (JObj inner) \<Rightarrow> inner | _ \<Rightarrow> []) (k' # ks) v))
             obj)"

definition lodash_set :: "(string \<times> jsval) list \<Rightarrow> string \<Rightarrow> jsval \<Rightarrow> (string \<times> jsval) list" where
  "lodash_set obj path v = baseSet obj (castPath (JStr path) obj) v"

section \<open>The collaborators of the service\<close>

text \<open>
  The service closes over the Strapi instance and requires modules that are not part of
  \<^verbatim>\<open>common.js\<close>. They are parameters of the model.

  \<^item> \<open>bad_words_filter\<close> is an instance of the \<^verbatim>\<open>bad-words\<close> filter.
  \<^item> \<open>env\<close> holds the helpers of \<^verbatim>\<open>./utils/functions\<close>, the constants of
    \<^verbatim>\<open>../utils/constants\<close> (\<^verbatim>\<open>REGEX.sorting.test\<close>, \<^verbatim>\<open>CONFIG_PARAMS\<close>) and the
    constructor of the filter.
  \<^item> \<open>query_engine\<close> is what \<^verbatim>\<open>strapi.db.query(uid)\<close> returns. Its reads answer from
    the current state \<open>'s\<close> of the data store or fail; \<^verbatim>\<open>updateMany\<close> also returns the
    state it leaves.
  \<^item> \<open>strapi\<close> is the instance. A Strapi instance has \<^verbatim>\<open>db\<close>, \<^verbatim>\<open>store\<close> and
    \<^verbatim>\<open>config\<close>; \<^verbatim>\<open>modifiedNestedNestedComments\<close> reads the property \<^verbatim>\<open>bd\<close>, which
    is \<^verbatim>\<open>undefined\<close> (\<open>None\<close>) unless the object it is given defines it. The
    configuration store and the static configuration are read at their boundary:
    \<^verbatim>\<open>get\<close> gives a document or nothing.
\<close>

record bad_words_filter =
  isProfane :: "jsval \<Rightarrow> bool"
  clean :: "jsval \<Rightarrow> jsval"

record env =
  getModelUid :: "string \<Rightarrow> string"
  getRelatedGroups :: "jsval \<Rightarrow> jsval list result"
  buildAuthorModel :: "jsval \<Rightarrow> jsval"
  buildConfigQueryProp :: "jsval \<Rightarrow> jsval"
  REGEX_sorting :: "string \<Rightarrow> bool"
  ENABLED_COLLECTIONS :: jsval
  BAD_WORDS :: jsval
  BadWordsFilter :: "jsval \<Rightarrow> bad_words_filter"

record 's query_engine =
  q_findOne :: "'s \<Rightarrow> jsval \<Rightarrow> jsval result"
  q_findMany :: "'s \<Rightarrow> jsval \<Rightarrow> jsval list result"
  q_findWithCount :: "'s \<Rightarrow> jsval \<Rightarrow> (jsval list \<times> int) result"
  q_count :: "'s \<Rightarrow> jsval \<Rightarrow> int result"
  q_updateMany :: "'s \<Rightarrow> jsval \<Rightarrow> jsval list result \<times> 's"

record 's strapi =
  db :: "string \<Rightarrow> 's query_engine"
  bd :: "(string \<Rightarrow> 's query_engine) option"
  store :: "jsval \<Rightarrow> jsval \<Rightarrow> jsval"
  config_get :: "string \<Rightarrow> jsval"

section \<open>Configuration\<close>

definition getLocalConfig :: "'s strapi \<Rightarrow> env \<Rightarrow> jsval \<Rightarrow> jsval \<Rightarrow> jsval" where
  "getLocalConfig strapi env prop defaultValue =
     (let queryProp = buildConfigQueryProp env prop;
          result = config_get strapi
            (''plugin.comments'' @ (if truthy queryProp then ''.'' @ js_String queryProp else []))
      in if isNil result then defaultValue else result)"

definition getPluginStore :: "'s strapi \<Rightarrow> jsval \<Rightarrow> jsval" where
  "getPluginStore strapi = store strapi (JObj [(''type'', JStr ''plugin''), (''name'', JStr ''comments'')])"

definition getConfig :: "'s strapi \<Rightarrow> env \<Rightarrow> jsval \<Rightarrow> jsval \<Rightarrow> bool \<Rightarrow> jsval" where
  "getConfig strapi env prop defaultValue useLocal =
     (let queryProp = buildConfigQueryProp env prop;
          pluginStore = getPluginStore strapi;
          config = pluginStore (JObj [(''key'', JStr ''config'')]);
          result =
            (if truthy config \<and> \<not> useLocal
             then (if truthy queryProp then lodash_get config queryProp defaultValue else config)
             else getLocalConfig strapi env queryProp defaultValue)
      in if isNil result then defaultValue else result)"

section \<open>The moderation filter\<close>

definition checkBadWords :: "'s strapi \<Rightarrow> env \<Rightarrow> jsval \<Rightarrow> jsval result" where
  "checkBadWords strapi env content =
     (let config = getConfig strapi env (BAD_WORDS env) (JBool True) False in
      if truthy config then
        (let flt = BadWordsFilter env (if isObject config then config else JUndefined) in
         if truthy content \<and> isProfane flt content then
           Inl (PluginError 400 ''Bad language used! Please polite your comment...''
                  (JObj [(''content'',
                     JObj [(''original'', content),
                           (''filtered'', if truthy content then clean flt content else content)])]))
         else Inr content)
      else Inr content)"

section \<open>The relation token\<close>

text \<open>\<^verbatim>\<open>xs.includes(v)\<close> and \<^verbatim>\<open>xs.join(', ')\<close> exist on an array; on a string
  \<^verbatim>\<open>includes\<close> is the substring test and \<^verbatim>\<open>join\<close> is missing; on any other value
  the call is a \<^verbatim>\<open>TypeError\<close>.\<close>

fun is_prefix :: "string \<Rightarrow> string \<Rightarrow> bool" where
  "is_prefix [] ys = True"
| "is_prefix (x # xs) [] = False"
| "is_prefix (x # xs) (y # ys) = (x = y \<and> is_prefix xs ys)"

fun is_substring :: "string \<Rightarrow> string \<Rightarrow> bool" where
  "is_substring xs [] = (xs = [])"
| "is_substring xs (y # ys) = (is_prefix xs (y # ys) \<or> is_substring xs ys)"

definition js_includes :: "jsval \<Rightarrow> jsval \<Rightarrow> bool result" where
  "js_includes xs v =
     (case xs of
        JArr ys \<Rightarrow> Inr (v \<in> set ys)
      | JStr s \<Rightarrow> Inr (is_substring (js_String v) s)
      | _ \<Rightarrow> Inl TypeError)"

definition join_values :: "jsval \<Rightarrow> string result" where
  "join_values xs =
     (case xs of
        JArr ys \<Rightarrow> Inr (join '', '' (map (\<lambda>y. if isNil y then [] else js_String y) ys))
      | _ \<Rightarrow> Inl TypeError)"

definition parseRelationString :: "'s strapi \<Rightarrow> env \<Rightarrow> jsval \<Rightarrow> (jsval \<times> jsval) result" where
  "parseRelationString strapi env relation =
     bindR (getRelatedGroups env relation) (\<lambda>groups.
       let uid = element groups 0;
           relatedStringId = element groups 1;
           parsedRelatedId = parseInt relatedStringId;
           relatedId = (if isNumber parsedRelatedId then parsedRelatedId else relatedStringId);
           enabledCollections = getConfig strapi env (ENABLED_COLLECTIONS env) (JArr []) False
       in bindR (js_includes enabledCollections uid) (\<lambda>enabled.
            if \<not> enabled then
              bindR (join_values enabledCollections) (\<lambda>allowed.
                Inl (PluginError 403
                  (''Action not allowed for collection '' @ [CHR 0x27] @ js_String uid @ [CHR 0x27]
                     @ ''. Use one of: '' @ allowed) JUndefined))
            else Inr (uid, relatedId)))"

section \<open>Single comments\<close>

definition sanitizeCommentEntity :: "env \<Rightarrow> jsval \<Rightarrow> jsval" where
  "sanitizeCommentEntity env entity =
     (let threadOf = get_prop ''threadOf'' entity in
      JObj (own_entries (buildAuthorModel env
        (JObj (assign ''threadOf'' (if isObject threadOf then buildAuthorModel env threadOf else threadOf)
           (own_entries entity))))))"

text \<open>Modelled from the spec: \<^verbatim>\<open>filterOurResolvedReports\<close> of \<^verbatim>\<open>./utils/functions\<close> is
  not part of \<^verbatim>\<open>common.js\<close>. The spec describes it as the step that removes
  already-resolved moderation reports from a comment's externally visible \<^verbatim>\<open>reports\<close>
  collection; a report counts as resolved when its \<^verbatim>\<open>resolved\<close> flag is set.\<close>

definition reports_of :: "jsval \<Rightarrow> jsval list" where
  "reports_of item = (case get_prop ''reports'' item of JArr rs \<Rightarrow> rs | _ \<Rightarrow> [])"

definition resolved :: "jsval \<Rightarrow> bool" where
  "resolved report = truthy (get_prop ''resolved'' report)"

definition filterOurResolvedReports :: "jsval \<Rightarrow> jsval" where
  "filterOurResolvedReports item =
     JObj (assign ''reports'' (JArr (filter (\<lambda>r. \<not> resolved r) (reports_of item))) (own_entries item))"

definition findOne :: "'s strapi \<Rightarrow> env \<Rightarrow> 's \<Rightarrow> jsval \<Rightarrow> jsval result" where
  "findOne strapi env s criteria =
     bindR (q_findOne (db strapi (getModelUid env ''comment'')) s
              (JObj [(''where'', criteria),
                     (''populate'', JObj [(''reports'', JBool True), (''authorUser'', JBool True)])]))
       (\<lambda>entity.
          if \<not> truthy entity
          then Inl (PluginError 404 ''Comment does not exist. Check your payload please.'' JUndefined)
          else Inr (filterOurResolvedReports (sanitizeCommentEntity env entity)))"

section \<open>Arithmetic and comparison of numbers\<close>

text \<open>The operands of the arithmetic in \<^verbatim>\<open>findAllFlat\<close> are numbers: results of
  \<^verbatim>\<open>parseInt\<close>, numeric defaults, a count of the store, or \<^verbatim>\<open>undefined\<close>, which
  converts to \<^verbatim>\<open>NaN\<close>. The difference and the product of pagination are rounded to
  the nearest double. \<^verbatim>\<open>js_floor_div\<close> is \<^verbatim>\<open>Math.floor(a / b)\<close> and \<^verbatim>\<open>js_rem\<close> is
  \<^verbatim>\<open>a % b\<close>, whose sign is the sign of \<open>a\<close>; they and the sum are those of the count
  of a store, a count below \<open>2^53\<close>.\<close>

fun js_sub :: "jsval \<Rightarrow> jsval \<Rightarrow> jsval" where
  "js_sub (JNum a) (JNum b) = number (a - b)"
| "js_sub (JInf p) (JNum b) = JInf p"
| "js_sub (JNum a) (JInf q) = JInf (\<not> q)"
| "js_sub (JInf p) (JInf q) = (if p = q then JNaN else JInf p)"
| "js_sub _ _ = JNaN"

fun js_add :: "jsval \<Rightarrow> jsval \<Rightarrow> jsval" where
  "js_add (JNum a) (JNum b) = JNum (a + b)"
| "js_add (JInf p) (JNum b) = JInf p"
| "js_add (JNum a) (JInf q) = JInf q"
| "js_add (JInf p) (JInf q) = (if p = q then JInf p else JNaN)"
| "js_add _ _ = JNaN"

fun js_mul :: "jsval \<Rightarrow> jsval \<Rightarrow> jsval" where
  "js_mul (JNum a) (JNum b) = number (a * b)"
| "js_mul (JInf p) (JNum b) = (if b = 0 then JNaN else JInf (p = (0 < b)))"
| "js_mul (JNum a) (JInf q) = (if a = 0 then JNaN else JInf (q = (0 < a)))"
| "js_mul (JInf p) (JInf q) = JInf (p = q)"
| "js_mul _ _ = JNaN"

fun js_floor_div :: "jsval \<Rightarrow> jsval \<Rightarrow> jsval" where
  "js_floor_div (JNum a) (JNum b) =
     (if b = 0 then (if a = 0 then JNaN else JInf (0 < a)) else JNum (a div b))"
| "js_floor_div (JNum a) (JInf q) = JNum 0"
| "js_floor_div (JInf p) (JNum b) = JInf (p = (0 \<le> b))"
| "js_floor_div _ _ = JNaN"

fun js_rem :: "jsval \<Rightarrow> jsval \<Rightarrow> jsval" where
  "js_rem (JNum a) (JNum b) = (if b = 0 then JNaN else JNum (sgn a * (\<bar>a\<bar> mod \<bar>b\<bar>)))"
| "js_rem (JNum a) (JInf q) = JNum a"
| "js_rem _ _ = JNaN"

fun js_gt :: "jsval \<Rightarrow> jsval \<Rightarrow> bool" where
  "js_gt (JNum a) (JNum b) = (b < a)"
| "js_gt (JInf p) (JNum b) = p"
| "js_gt (JNum a) (JInf q) = (\<not> q)"
| "js_gt (JInf p) (JInf q) = (p \<and> \<not> q)"
| "js_gt _ _ = False"

text \<open>\<^verbatim>\<open>a === b\<close>. \<^verbatim>\<open>NaN\<close> equals nothing; objects, which JavaScript compares by
  identity, are compared by their contents here (the values compared in this file are
  identifiers, strings and numbers).\<close>

definition js_strict_eq :: "jsval \<Rightarrow> jsval \<Rightarrow> bool" where
  "js_strict_eq a b = (a = b \<and> a \<noteq> JNaN)"

section \<open>Flat retrieval\<close>

subsection \<open>Sort compilation (lines 59--69)\<close>

text \<open>The callback of \<^verbatim>\<open>map\<close> keeps an entry that \<^verbatim>\<open>REGEX.sorting\<close> accepts and appends
  \<^verbatim>\<open>:asc\<close> to any other. An accepted entry that is not a string has no \<^verbatim>\<open>split\<close>,
  which the reducer calls.\<close>

definition sort_entry :: "env \<Rightarrow> jsval \<Rightarrow> string result" where
  "sort_entry env v =
     (case v of
        JStr s \<Rightarrow> Inr (if REGEX_sorting env s then s else s @ '':asc'')
      | _ \<Rightarrow> if REGEX_sorting env (js_String v) then Inl TypeError else Inr (js_String v @ '':asc''))"

definition sort_step :: "(string \<times> jsval) list \<Rightarrow> string \<Rightarrow> (string \<times> jsval) list" where
  "sort_step prev cur =
     (case rev (split_on CHR '':'' cur) of
        [] \<Rightarrow> lodash_set prev [] (JStr ''asc'')
      | direction # parts \<Rightarrow> lodash_set prev (join ''.'' (rev parts)) (JStr direction))"


definition sort_keys :: "string \<Rightarrow> string list" where
  "sort_keys s = split_on CHR ''.'' (join ''.'' (butlast (split_on CHR '':'' s)))"

definition orderBy :: "env \<Rightarrow> jsval \<Rightarrow> jsval result" where
  "orderBy env sortArg =
     bindR (mapM (sort_entry env) (case sortArg of JArr xs \<Rightarrow> xs | _ \<Rightarrow> [sortArg]))
       (\<lambda>entries. Inr (JObj (foldl sort_step [] entries)))"

definition sortExtension :: "env \<Rightarrow> jsval \<Rightarrow> (string \<times> jsval) list result" where
  "sortExtension env sortArg =
     (if truthy sortArg \<and> (isString sortArg \<or> isArray sortArg)
      then bindR (orderBy env sortArg) (\<lambda>ob. Inr [(''orderBy'', ob)])
      else Inr [])"

subsection \<open>Pagination (lines 71--101)\<close>

definition parsedPagination :: "jsval \<Rightarrow> (string \<times> jsval) list" where
  "parsedPagination pagination = map (\<lambda>(k, v). (k, parseInt v)) (own_entries pagination)"

text \<open>A destructuring default replaces a property that is missing or \<^verbatim>\<open>undefined\<close>.\<close>

definition destructure :: "string \<Rightarrow> jsval \<Rightarrow> (string \<times> jsval) list \<Rightarrow> jsval" where
  "destructure k d obj =
     (case map_of obj k of None \<Rightarrow> d | Some v \<Rightarrow> if v = JUndefined then d else v)"

definition paginationByPage :: "(string \<times> jsval) list \<Rightarrow> bool" where
  "paginationByPage parsed =
     (\<not> isNil (get_prop ''page'' (JObj parsed)) \<or> \<not> isNil (get_prop ''pageSize'' (JObj parsed)))"

definition paginate ::
  "jsval \<Rightarrow> (string \<times> jsval) list \<Rightarrow> (string \<times> jsval) list \<times> (string \<times> jsval) list" where
  "paginate pagination queryExtension =
     (if truthy pagination \<and> isObject pagination then
        (let parsed = parsedPagination pagination;
             page = destructure ''page'' (JNum 1) parsed;
             pageSize = destructure ''pageSize'' (JNum 10) parsed;
             start = destructure ''start'' (JNum 0) parsed;
             limit = destructure ''limit'' (JNum 10) parsed;
             byPage = paginationByPage parsed
         in (assign_all queryExtension
               [(''offset'', if byPage then js_mul (js_sub page (JNum 1)) pageSize else start),
                (''limit'', if byPage then pageSize else limit)],
             [(''pagination'',
                 JObj (if byPage then [(''page'', page), (''pageSize'', pageSize)]
                       else [(''start'', start), (''limit'', limit)]))]))
      else (queryExtension, []))"

subsection \<open>The count (lines 115--133)\<close>

definition withCountRequested :: "jsval \<Rightarrow> bool" where
  "withCountRequested pagination =
     (let withCount = get_prop ''withCount'' pagination
      in truthy withCount \<and> (withCount = JStr ''true'' \<or> withCount = JBool True))"

definition countMeta :: "(string \<times> jsval) list \<Rightarrow> int \<Rightarrow> (string \<times> jsval) list" where
  "countMeta meta total' =
     (let metaPagination = get_prop ''pagination'' (JObj meta);
          pageSize = get_prop ''pageSize'' metaPagination;
          pageCount = js_floor_div (JNum total') pageSize
      in assign ''pagination''
           (JObj (assign_all (own_entries metaPagination)
              [(''pageCount'',
                  if \<not> isNil (get_prop ''page'' metaPagination)
                  then (if js_strict_eq (js_rem (JNum total') pageSize) (JNum 0)
                        then pageCount else js_add pageCount (JNum 1))
                  else JUndefined),
               (''total'', JNum total')]))
           meta)"

subsection \<open>Thread annotation (lines 135--143)\<close>

definition first :: "jsval list \<Rightarrow> jsval" where
  "first xs = (case xs of [] \<Rightarrow> JUndefined | x # _ \<Rightarrow> x)"

definition threadSummary :: "'s strapi \<Rightarrow> env \<Rightarrow> 's \<Rightarrow> jsval \<Rightarrow> jsval result" where
  "threadSummary strapi env s entry =
     bindR (member entry ''id'') (\<lambda>entryId.
     bindR (q_findWithCount (db strapi (getModelUid env ''comment'')) s
              (JObj [(''where'', JObj [(''threadOf'', entryId)])]))
       (\<lambda>(nestedEntries, count).
          Inr (JObj [(''id'', entryId), (''itemsInTread'', JNum count),
                     (''firstThreadItemId'', get_prop ''id'' (first nestedEntries))])))"

subsection \<open>Related entities (lines 196--230)\<close>

fun foldM :: "('b \<Rightarrow> 'a \<Rightarrow> 'b result) \<Rightarrow> 'b \<Rightarrow> 'a list \<Rightarrow> 'b result" where
  "foldM f acc [] = Inr acc"
| "foldM f acc (x # xs) = (case f acc x of Inl e \<Rightarrow> Inl e | Inr acc' \<Rightarrow> foldM f acc' xs)"

text \<open>\<^verbatim>\<open>Array.from(new Set(xs))\<close>: the first occurrence of every element, in order.\<close>

definition uniq :: "'a list \<Rightarrow> 'a list" where
  "uniq xs = rev (remdups (rev xs))"

definition relatedGroup ::
  "env \<Rightarrow> (string \<times> jsval list) list \<Rightarrow> jsval \<Rightarrow> (string \<times> jsval list) list result" where
  "relatedGroup env acc cur =
     bindR (member cur ''related'') (\<lambda>related.
     bindR (getRelatedGroups env related) (\<lambda>groups.
       let relatedUid = element groups 0;
           relatedStringId = element groups 1;
           parsedRelatedId = parseInt relatedStringId;
           relatedId = (if isNumber parsedRelatedId then parsedRelatedId else relatedStringId);
           key = js_String relatedUid
       in Inr (assign key ((case map_of acc key of Some ids \<Rightarrow> ids | None \<Rightarrow> []) @ [relatedId]) acc)))"

definition fetchRelated :: "'s strapi \<Rightarrow> 's \<Rightarrow> string \<times> jsval list \<Rightarrow> jsval list result" where
  "fetchRelated strapi s entry =
     (case entry of (relatedUid, relatedStringIds) \<Rightarrow>
        bindR (q_findMany (db strapi relatedUid) s
                 (JObj [(''where'', JObj [(''id'', JArr (uniq relatedStringIds))])]))
          (\<lambda>relatedEntities.
             Inr (map (\<lambda>r. JObj (assign ''uid'' (JStr relatedUid) (own_entries r))) relatedEntities)))"

definition findRelatedEntitiesFor :: "'s strapi \<Rightarrow> env \<Rightarrow> 's \<Rightarrow> jsval list \<Rightarrow> jsval list result" where
  "findRelatedEntitiesFor strapi env s entities =
     bindR (foldM (relatedGroup env) [] entities) (\<lambda>data.
     bindR (mapM (fetchRelated strapi s) data) (\<lambda>result. Inr (concat result)))"

definition relationToken :: "jsval \<Rightarrow> string" where
  "relationToken relatedEntity =
     js_String (get_prop ''uid'' relatedEntity) @ '':'' @ js_String (get_prop ''id'' relatedEntity)"

text \<open>\<^verbatim>\<open>relatedEntities.find(...)\<close>: the first element whose \<^verbatim>\<open>uid:id\<close> string is the
  comment's \<^verbatim>\<open>related\<close>, or \<^verbatim>\<open>undefined\<close>. The callback reads properties of the
  element and of the comment.\<close>

fun find_related :: "jsval \<Rightarrow> jsval list \<Rightarrow> jsval result" where
  "find_related entity [] = Inr JUndefined"
| "find_related entity (relatedEntity # rest) =
     (if isNil entity \<or> isNil relatedEntity then Inl TypeError
      else if get_prop ''related'' entity = JStr (relationToken relatedEntity) then Inr relatedEntity
      else find_related entity rest)"

definition mergeRelatedEntityTo :: "jsval \<Rightarrow> jsval list \<Rightarrow> jsval result" where
  "mergeRelatedEntityTo entity relatedEntities =
     bindR (find_related entity relatedEntities)
       (\<lambda>found. Inr (JObj (assign ''related'' found (own_entries entity))))"

subsection \<open>\<^verbatim>\<open>findAllFlat\<close>\<close>

definition default_to :: "jsval \<Rightarrow> jsval \<Rightarrow> jsval" where
  "default_to d v = (if v = JUndefined then d else v)"

definition findManyParams :: "jsval \<Rightarrow> jsval \<Rightarrow> (string \<times> jsval) list \<Rightarrow> jsval" where
  "findManyParams query populate queryExtension =
     JObj (assign_all
       [(''where'', JObj (own_entries query)),
        (''populate'', JObj (assign_all [(''authorUser'', JBool True)] (own_entries populate)))]
       queryExtension)"

definition flatEntry :: "env \<Rightarrow> jsval \<Rightarrow> jsval list \<Rightarrow> jsval \<Rightarrow> jsval result" where
  "flatEntry env query entriesWithThreads entry =
     (let threadedItem =
            (case find (\<lambda>item. js_strict_eq (get_prop ''id'' item) (get_prop ''id'' entry)) entriesWithThreads of
               Some item \<Rightarrow> item | None \<Rightarrow> JUndefined)
      in bindR (member query ''threadOf'') (\<lambda>queryThreadOf.
           Inr (sanitizeCommentEntity env
             (JObj (assign_all (own_entries entry)
                [(''threadOf'', js_or (js_or queryThreadOf (get_prop ''threadOf'' entry)) JNull),
                 (''gotThread'',
                    JBool (js_gt (js_or (get_prop ''itemsInTread'' threadedItem) (JNum 0)) (JNum 0))),
                 (''threadFirstItemId'', get_prop ''firstThreadItemId'' threadedItem)])))))"

definition findAllFlat ::
  "'s strapi \<Rightarrow> env \<Rightarrow> 's \<Rightarrow> jsval \<Rightarrow> jsval \<Rightarrow> jsval \<Rightarrow> jsval \<Rightarrow> jsval \<Rightarrow> jsval result" where
  "findAllFlat strapi env s query0 populate0 sortArg pagination relatedEntity0 =
     (let query = default_to (JObj []) query0;
          populate = default_to (JObj []) populate0;
          relatedEntity = default_to JNull relatedEntity0;
          comments = db strapi (getModelUid env ''comment'')
      in bindR (sortExtension env sortArg) (\<lambda>sortExt.
         case paginate pagination sortExt of (queryExtension, paged) \<Rightarrow>
         bindR (q_findMany comments s (findManyParams query populate queryExtension)) (\<lambda>entries.
         bindR (if withCountRequested pagination
                then bindR (q_count comments s (JObj [(''where'', JObj (own_entries query))]))
                       (\<lambda>total. Inr (countMeta paged total))
                else Inr paged) (\<lambda>meta.
         bindR (mapM (threadSummary strapi env s) entries) (\<lambda>entriesWithThreads.
         bindR (if relatedEntity \<noteq> JNull then Inr [relatedEntity]
                else findRelatedEntitiesFor strapi env s entries) (\<lambda>relatedEntities.
         bindR (mapM (flatEntry env query entriesWithThreads) entries) (\<lambda>result.
         bindR (if filter truthy relatedEntities \<noteq> []
                then mapM (\<lambda>comment. mergeRelatedEntityTo comment relatedEntities) result
                else Inr result) (\<lambda>data.
           Inr (JObj ((''data'', JArr data) # (if meta = [] then [] else [(''meta'', JObj meta)])))))))))))"

section \<open>The reply tree\<close>

text \<open>Modelled from the spec: \<^verbatim>\<open>buildNestedStructure\<close> of \<^verbatim>\<open>./utils/functions\<close> is not
  part of \<^verbatim>\<open>common.js\<close>. The spec (section 4.7) gives it a flat sequence of comments, a
  starting parent id (\<^verbatim>\<open>null\<close> for the roots) and the flag \<^verbatim>\<open>dropBlockedThreads\<close>: the
  \<^verbatim>\<open>children\<close> of a comment are the comments of the sequence whose \<^verbatim>\<open>threadOf\<close> equals
  its id, in the order of the sequence, assembled recursively; with the flag set, a
  comment whose \<^verbatim>\<open>blockedThread\<close> is true is left out with its subtree. The spec bounds
  the depth by the data alone, so the recursion need not end on a sequence with a cycle:
  the model counts the depth down and gives \<open>None\<close> where the count runs out. The spec
  says nothing of the fifth argument, which \<^verbatim>\<open>findAllInHierarchy\<close> passes as \<^verbatim>\<open>false\<close>.\<close>

datatype thread = Thread jsval "thread list"





text \<open>The object that a thread stands for: the comment with its \<^verbatim>\<open>children\<close>.\<close>

fun thread_value :: "thread \<Rightarrow> jsval" where
  "thread_value (Thread entity children) =
     JObj (assign ''children'' (JArr (map thread_value children)) (own_entries entity))"




section \<open>The cascading update\<close>

text \<open>
  \<^verbatim>\<open>modifiedNestedNestedComments\<close> calls itself for every changed child, and nothing in it
  bounds the depth: on a store whose \<^verbatim>\<open>threadOf\<close> links form a cycle it does not return.
  The model counts the depth down; \<open>None\<close> says that the count ran out. The outcome of a
  call is the outcome of its promise: \<open>Inr b\<close> when it resolves with \<open>b\<close>, \<open>Inl e\<close>
  when it rejects.

  The recursive calls of one level run under \<^verbatim>\<open>Promise.all\<close>; the model runs them one
  after the other, in the order of \<^verbatim>\<open>changedEntities\<close>, each on the state that the one
  before it left. That is one of the schedules the concurrent calls can take.
\<close>

fun runAll ::
  "('a \<Rightarrow> 's \<Rightarrow> 'b result option \<times> 's) \<Rightarrow> 'a list \<Rightarrow> 's \<Rightarrow> 'b list result option \<times> 's" where
  "runAll f [] s = (Some (Inr []), s)"
| "runAll f (x # xs) s =
     (case f x s of
        (None, s') \<Rightarrow> (None, s')
      | (Some (Inl e), s') \<Rightarrow> (Some (Inl e), s')
      | (Some (Inr y), s') \<Rightarrow>
          (case runAll f xs s' of
             (None, s'') \<Rightarrow> (None, s'')
           | (Some (Inl e), s'') \<Rightarrow> (Some (Inl e), s'')
           | (Some (Inr ys), s'') \<Rightarrow> (Some (Inr (y # ys)), s'')))"

text \<open>\<^verbatim>\<open>try { ... } catch (e) { return false; }\<close>\<close>

definition catch_false :: "bool result option \<times> 's \<Rightarrow> bool result option \<times> 's" where
  "catch_false outcome =
     (case outcome of
        (None, s) \<Rightarrow> (None, s)
      | (Some (Inl e), s) \<Rightarrow> (Some (Inr False), s)
      | (Some (Inr b), s) \<Rightarrow> (Some (Inr b), s))"

fun modifiedNestedNestedComments ::
  "nat \<Rightarrow> 's strapi \<Rightarrow> env \<Rightarrow> jsval \<Rightarrow> string \<Rightarrow> jsval \<Rightarrow> 's \<Rightarrow> bool result option \<times> 's" where
  "modifiedNestedNestedComments 0 strapi env commentId fieldName val s = (None, s)"
| "modifiedNestedNestedComments (Suc depth) strapi env commentId fieldName val s =
     catch_false
       (case bd strapi of
          None \<Rightarrow> (Some (Inl TypeError), s)
        | Some query \<Rightarrow>
            (case q_findMany (query (getModelUid env ''comment'')) s
                    (JObj [(''where'', JObj [(''threadOf'', commentId)])]) of
               Inl e \<Rightarrow> (Some (Inl e), s)
             | Inr entitiesToChange \<Rightarrow>
                 (case mapM (\<lambda>entity. member entity ''id'') entitiesToChange of
                    Inl e \<Rightarrow> (Some (Inl e), s)
                  | Inr ids \<Rightarrow>
                      (case q_updateMany (query (getModelUid env ''comment'')) s
                              (JObj [(''where'', JObj [(''id'', JArr ids)]),
                                     (''data'', JObj [(fieldName, val)])]) of
                         (Inl e, s1) \<Rightarrow> (Some (Inl e), s1)
                       | (Inr changedEntities, s1) \<Rightarrow>
                           if length entitiesToChange = length changedEntities
                              \<and> 0 < length changedEntities
                           then
                             (case runAll
                                     (\<lambda>item s'.
                                        if isNil item then (Some (Inl TypeError), s')
                                        else modifiedNestedNestedComments depth strapi env
                                               (get_prop ''id'' item) fieldName val s')
                                     changedEntities s1 of
                                (None, s2) \<Rightarrow> (None, s2)
                              | (Some (Inl e), s2) \<Rightarrow> (Some (Inl e), s2)
                              | (Some (Inr nestedTransactions), s2) \<Rightarrow>
                                  (Some (Inr (length nestedTransactions = length changedEntities)), s2))
                           else (Some (Inr True), s1)))))"

section \<open>A store in memory and an environment, for the examples\<close>

text \<open>The examples run the service on a data store held in memory: a state is the list
  of the collections with their records, a criterion \<^verbatim>\<open>{k: v}\<close> selects the records
  whose \<open>k\<close> is \<open>v\<close> (or one of the elements of \<open>v\<close>, when \<open>v\<close> is an array), and
  \<^verbatim>\<open>updateMany\<close> returns the records it changed.\<close>

type_synonym memory = "(string \<times> jsval list) list"

definition table :: "memory \<Rightarrow> string \<Rightarrow> jsval list" where
  "table s uid = (case map_of s uid of Some records \<Rightarrow> records | None \<Rightarrow> [])"

definition matches :: "jsval \<Rightarrow> jsval \<Rightarrow> bool" where
  "matches criteria record =
     list_all (\<lambda>(k, v). case v of JArr vs \<Rightarrow> get_prop k record \<in> set vs | _ \<Rightarrow> get_prop k record = v)
       (own_entries criteria)"

definition selected :: "memory \<Rightarrow> string \<Rightarrow> jsval \<Rightarrow> jsval list" where
  "selected s uid params = filter (matches (get_prop ''where'' params)) (table s uid)"

definition window :: "jsval \<Rightarrow> jsval list \<Rightarrow> jsval list" where
  "window params records =
     (let skipped = (case get_prop ''offset'' params of JNum n \<Rightarrow> drop (nat n) records | _ \<Rightarrow> records)
      in case get_prop ''limit'' params of JNum n \<Rightarrow> take (nat n) skipped | _ \<Rightarrow> skipped)"

definition patch :: "jsval \<Rightarrow> jsval \<Rightarrow> jsval" where
  "patch params record = JObj (assign_all (own_entries record) (own_entries (get_prop ''data'' params)))"

definition memory_engine :: "string \<Rightarrow> memory query_engine" where
  "memory_engine uid =
     \<lparr> q_findOne = (\<lambda>s params. Inr (case selected s uid params of [] \<Rightarrow> JNull | r # _ \<Rightarrow> r)),
       q_findMany = (\<lambda>s params. Inr (window params (selected s uid params))),
       q_findWithCount = (\<lambda>s params. Inr (selected s uid params, int (length (selected s uid params)))),
       q_count = (\<lambda>s params. Inr (int (length (selected s uid params)))),
       q_updateMany = (\<lambda>s params.
          (Inr (map (patch params) (selected s uid params)),
           assign uid
             (map (\<lambda>r. if matches (get_prop ''where'' params) r then patch params r else r) (table s uid))
             s)) \<rparr>"

text \<open>Three engines that misbehave: one whose \<^verbatim>\<open>updateMany\<close> changes the records but
  reports all but the first of them, one whose \<^verbatim>\<open>updateMany\<close> fails, and one whose
  \<^verbatim>\<open>findMany\<close> fails when it is asked for the replies to a given comment.\<close>

definition short_update_engine :: "string \<Rightarrow> memory query_engine" where
  "short_update_engine uid =
     (memory_engine uid)
       \<lparr> q_updateMany := (\<lambda>s params.
            case q_updateMany (memory_engine uid) s params of
              (Inr changed, s') \<Rightarrow> (Inr (tl changed), s')
            | (Inl e, s') \<Rightarrow> (Inl e, s')) \<rparr>"

definition failing_update_engine :: "string \<Rightarrow> memory query_engine" where
  "failing_update_engine uid =
     (memory_engine uid)
       \<lparr> q_updateMany := (\<lambda>s params. (Inl (StoreError ''write refused''), s)) \<rparr>"

definition failing_fetch_engine :: "jsval \<Rightarrow> string \<Rightarrow> memory query_engine" where
  "failing_fetch_engine parent uid =
     (memory_engine uid)
       \<lparr> q_findMany := (\<lambda>s params.
            if get_prop ''threadOf'' (get_prop ''where'' params) = parent
            then Inl (StoreError ''connection lost'')
            else q_findMany (memory_engine uid) s params) \<rparr>"

text \<open>An environment in the shape the spec gives the missing helpers: a relation token
  \<^verbatim>\<open><collectionId>:<recordId>\<close> is cut at its last colon, a sort entry is recognised by
  its suffix \<^verbatim>\<open>:asc\<close> or \<^verbatim>\<open>:desc\<close>, the author model is left as it is, and the
  filter rejects the word \<^verbatim>\<open>darn\<close>.\<close>

definition example_getRelatedGroups :: "jsval \<Rightarrow> jsval list result" where
  "example_getRelatedGroups related =
     (case related of
        JStr token \<Rightarrow>
          (let parts = split_on CHR '':'' token
           in if length parts < 2 then Inr [JStr token]
              else Inr [JStr (join '':'' (butlast parts)), JStr (last parts)])
      | _ \<Rightarrow> Inl TypeError)"

definition example_sorting :: "string \<Rightarrow> bool" where
  "example_sorting s =
     (let parts = split_on CHR '':'' s
      in 2 \<le> length parts \<and> (last parts = ''asc'' \<or> last parts = ''desc''))"

definition example_filter :: "jsval \<Rightarrow> bad_words_filter" where
  "example_filter options =
     \<lparr> isProfane = (\<lambda>text. is_substring ''darn'' (js_String text)),
       clean = (\<lambda>text. JStr ''****'') \<rparr>"

definition example_env :: env where
  "example_env =
     \<lparr> getModelUid = (\<lambda>name. ''plugin::comments.'' @ name),
       getRelatedGroups = example_getRelatedGroups,
       buildAuthorModel = (\<lambda>entity. entity),
       buildConfigQueryProp = (\<lambda>p. p),
       REGEX_sorting = example_sorting,
       ENABLED_COLLECTIONS = JStr ''enabledCollections'',
       BAD_WORDS = JStr ''badWords'',
       BadWordsFilter = example_filter \<rparr>"

text \<open>A Strapi instance over the store in memory; \<open>config\<close> is the document of the
  plugin's configuration store. As on every Strapi instance, it has no property
  \<^verbatim>\<open>bd\<close>. The second instance is the same object with \<^verbatim>\<open>bd\<close> set to a query source.\<close>

definition example_strapi :: "jsval \<Rightarrow> memory strapi" where
  "example_strapi config =
     \<lparr> db = memory_engine, bd = None, store = (\<lambda>options key. config), config_get = (\<lambda>path. JUndefined) \<rparr>"

definition strapi_with_bd :: "(string \<Rightarrow> memory query_engine) \<Rightarrow> memory strapi" where
  "strapi_with_bd query = (example_strapi JNull) \<lparr> bd := Some query \<rparr>"

definition comment :: "int \<Rightarrow> jsval \<Rightarrow> string \<Rightarrow> jsval" where
  "comment n parent related = JObj [(''id'', JNum n), (''threadOf'', parent), (''related'', JStr related)]"

definition comments_uid :: string where
  "comments_uid = ''plugin::comments.comment''"

definition example_config :: jsval where
  "example_config =
     JObj [(''enabledCollections'', JArr [JStr ''article'']), (''badWords'', JBool True)]"

definition reported_comment :: jsval where
  "reported_comment =
     JObj [(''id'', JNum 1), (''threadOf'', JNull), (''related'', JStr ''article:1''),
           (''reports'', JArr [JObj [(''id'', JNum 10), (''resolved'', JBool True)],
                               JObj [(''id'', JNum 11), (''resolved'', JBool False)]])]"

definition example_reported :: memory where
  "example_reported = [(comments_uid, [reported_comment])]"

text \<open>A thread of four comments: 2 and 3 reply to 1, and 4 replies to 2.\<close>

definition example_thread :: memory where
  "example_thread =
     [(comments_uid,
        [comment 1 JNull ''article:1'', comment 2 (JNum 1) ''article:1'',
         comment 3 (JNum 1) ''article:1'', comment 4 (JNum 2) ''article:1''])]"

definition blocked_comment :: "int \<Rightarrow> jsval \<Rightarrow> string \<Rightarrow> jsval" where
  "blocked_comment n parent related =
     JObj [(''id'', JNum n), (''threadOf'', parent), (''related'', JStr related), (''blocked'', JBool True)]"

text \<open>The same thread after \<^verbatim>\<open>blocked\<close> has been set on the replies to comment 1.\<close>

definition example_thread_level1 :: memory where
  "example_thread_level1 =
     [(comments_uid,
        [comment 1 JNull ''article:1'', blocked_comment 2 (JNum 1) ''article:1'',
         blocked_comment 3 (JNum 1) ''article:1'', comment 4 (JNum 2) ''article:1''])]"

text \<open>The value that pagination takes for a key of the pagination object \<^verbatim>\<open>{k: v, ...}\<close>:
  \<^verbatim>\<open>parseInt\<close> of what was given, and the default when the key is absent. This is the
  reading of the spec (section 4.4), against which \<^verbatim>\<open>paginate\<close> is compared.\<close>

definition pagination_value :: "(string \<times> jsval) list \<Rightarrow> string \<Rightarrow> jsval \<Rightarrow> jsval" where
  "pagination_value kvs k d = (case map_of kvs k of None \<Rightarrow> d | Some v \<Rightarrow> parseInt v)"

text \<open>Ten root comments, with the identifiers 1 to 10.\<close>

definition ten_comments :: memory where
  "ten_comments = [(comments_uid, map (\<lambda>n. comment n JNull ''article:1'') [1, 2, 3, 4, 5, 6, 7, 8, 9, 10])]"

definition flat_comment :: "int \<Rightarrow> jsval" where
  "flat_comment n =
     JObj [(''id'', JNum n), (''threadOf'', JNull), (''related'', JStr ''article:1''),
           (''gotThread'', JBool False), (''threadFirstItemId'', JUndefined)]"

definition eleven_comments :: memory where
  "eleven_comments =
     [(comments_uid, map (\<lambda>n. comment n JNull ''article:1'') [1, 2, 3, 4, 5, 6, 7, 8, 9, 10, 11])]"


text \<open>Three comments, two on article 1 and one on article 7, and a collection of
  articles that holds article 1 only.\<close>

definition example_related :: memory where
  "example_related =
     [(comments_uid,
        [comment 1 JNull ''article:1'', comment 2 (JNum 1) ''article:1'', comment 3 (JNum 2) ''article:7'']),
      (''article'', [JObj [(''id'', JNum 1), (''title'', JStr ''One'')]])]"




section \<open>Properties of objects\<close>

lemma map_of_assign_same: "map_of (assign k v kvs) k = Some v"
  by (induction kvs) auto

lemma map_of_assign_other: "k' \<noteq> k \<Longrightarrow> map_of (assign k v kvs) k' = map_of kvs k'"
  by (induction kvs) auto

lemma reports_of_filterOurResolvedReports:
  "reports_of (filterOurResolvedReports item) = filter (\<lambda>r. \<not> resolved r) (reports_of item)"
  by (simp add: filterOurResolvedReports_def reports_of_def map_of_assign_same)

section \<open>Numbers as text\<close>

text \<open>\<^verbatim>\<open>parseInt\<close> gives a number or \<^verbatim>\<open>NaN\<close>, never \<^verbatim>\<open>undefined\<close> or \<^verbatim>\<open>null\<close>, and it
  reads the decimal numeral of an integer back as the double nearest to it: as the
  integer itself up to \<open>2^53\<close> in magnitude.\<close>

lemma below_ten:
  assumes "d < (10::nat)"
  obtains "d = 0" | "d = 1" | "d = 2" | "d = 3" | "d = 4" | "d = 5" | "d = 6" | "d = 7"
    | "d = 8" | "d = 9"
  using assms by atomize_elim arith

lemma digit_val_digit_char: "d < 10 \<Longrightarrow> digit_val (digit_char d) = Some d"
  by (erule below_ten) (simp_all add: digit_char_def digit_val_def)

lemma decimal_digit_char: "d < 10 \<Longrightarrow> decimal (digit_char d)"
  by (erule below_ten) (simp_all add: digit_char_def decimal_def)

lemma decimal_is_digit: "decimal c \<Longrightarrow> is_digit 10 c"
  by (auto simp add: decimal_def is_digit_def digit_val_def)

lemma decimal_plain:
  "decimal c \<Longrightarrow> \<not> is_space c \<and> c \<noteq> CHR ''-'' \<and> c \<noteq> CHR ''+'' \<and> c \<noteq> CHR ''x'' \<and> c \<noteq> CHR ''X''"
  by (auto simp add: decimal_def is_space_def)

lemma digits_decimal: "\<forall>c \<in> set (digits n). decimal c"
proof (induction n rule: digits.induct)
  case (1 n)
  show ?case
  proof (cases "n < 10")
    case True
    then show ?thesis by (subst digits.simps) (simp add: decimal_digit_char)
  next
    case False
    have "decimal (digit_char (n mod 10))" by (simp add: decimal_digit_char)
    with False 1 show ?thesis by (subst digits.simps) auto
  qed
qed

lemma digits_not_empty: "digits n \<noteq> []"
  by (subst digits.simps) simp

lemma digits_value_snoc:
  "digits_value r (ds @ [c]) = digits_value r ds * r + (case digit_val c of Some d \<Rightarrow> d | None \<Rightarrow> 0)"
  by (simp add: digits_value_def)

lemma digits_value_digits: "digits_value 10 (digits n) = n"
proof (induction n rule: digits.induct)
  case (1 n)
  show ?case
  proof (cases "n < 10")
    case True
    then show ?thesis
      by (subst digits.simps) (simp add: digits_value_def digit_val_digit_char)
  next
    case False
    have "digits_value 10 (digits n) = digits_value 10 (digits (n div 10) @ [digit_char (n mod 10)])"
      using False by (subst digits.simps) simp
    also have "\<dots> = digits_value 10 (digits (n div 10)) * 10 + n mod 10"
      by (simp add: digits_value_snoc digit_val_digit_char)
    also have "\<dots> = n" using 1 False by simp
    finally show ?thesis .
  qed
qed

lemma parse_digits_digits:
  "parse_digits 10 neg (digits n) = number (if neg then - int n else int n)"
proof -
  have all: "takeWhile (is_digit 10) (digits n) = digits n"
    using digits_decimal decimal_is_digit by simp
  show ?thesis
    unfolding parse_digits_def Let_def all
    by (simp add: digits_not_empty digits_value_digits)
qed

lemma strip_hex_digits: "strip_hex (digits n) = None"
proof (cases "digits n")
  case Nil
  then show ?thesis by (simp add: strip_hex_def)
next
  case (Cons c0 rest)
  show ?thesis
  proof (cases rest)
    case Nil
    with Cons show ?thesis by (simp add: strip_hex_def)
  next
    case (Cons c1 rest')
    with \<open>digits n = c0 # rest\<close> have "c1 \<in> set (digits n)" by simp
    then have "decimal c1" using digits_decimal by blast
    then have "c1 \<noteq> CHR ''x'' \<and> c1 \<noteq> CHR ''X''" using decimal_plain by blast
    with Cons \<open>digits n = c0 # rest\<close> show ?thesis by (simp add: strip_hex_def)
  qed
qed

lemma parseInt_string_digits: "parseInt_string (digits n) = number (int n)"
proof -
  obtain c rest where shape: "digits n = c # rest"
    using digits_not_empty by (cases "digits n") auto
  then have "decimal c" using digits_decimal [of n] by simp
  then have plain: "\<not> is_space c \<and> c \<noteq> CHR ''-'' \<and> c \<noteq> CHR ''+''" using decimal_plain by blast
  have "strip_hex (c # rest) = None" using strip_hex_digits [of n] shape by simp
  moreover have "parse_digits 10 False (c # rest) = number (int n)"
    using parse_digits_digits [of False n] shape by simp
  ultimately show ?thesis
    using plain by (simp add: parseInt_string_def shape)
qed

lemma parseInt_string_minus_digits: "parseInt_string (CHR ''-'' # digits n) = number (- int n)"
  by (simp add: parseInt_string_def is_space_def strip_hex_digits parse_digits_digits)

lemma parseInt_numeral: "parseInt (JStr (show_int i)) = number i"
  by (simp add: parseInt_def lodash_toString_def show_int_def parseInt_string_digits
      parseInt_string_minus_digits)

lemma number_exact: "\<bar>i\<bar> \<le> 9007199254740992 \<Longrightarrow> number i = JNum i"
  by (simp add: number_def)

lemma number_cases: "(\<exists>n. number i = JNum n) \<or> (\<exists>b. number i = JInf b)"
  by (auto simp add: number_def split: option.splits)

lemma parseInt_show_int: "\<bar>i\<bar> \<le> 9007199254740992 \<Longrightarrow> parseInt (JStr (show_int i)) = JNum i"
  by (simp add: parseInt_numeral number_exact)

lemma parseInt_number:
  "parseInt v = JNaN \<or> (\<exists>n. parseInt v = JNum n) \<or> (\<exists>b. parseInt v = JInf b)"
  using number_cases
  by (auto simp add: parseInt_def parseInt_string_def parse_digits_def Let_def split: option.splits)

lemma parseInt_JNum: "\<bar>i\<bar> \<le> 9007199254740992 \<Longrightarrow> parseInt (JNum i) = JNum i"
  using parseInt_show_int [of i] by (simp add: parseInt_def lodash_toString_def)

lemma isNumber_parseInt: "isNumber (parseInt v)"
  using parseInt_number [of v] by auto

section \<open>The moderation filter\<close>

text \<open>
  Claim C7. \<^verbatim>\<open>checkBadWords(content)\<close> fails with the 400 error, carrying the original
  and the cleaned text, exactly when the bad-words configuration is enabled (the resolved
  value is truthy), the content is present (truthy) and the filter reports it profane; in
  every other case it returns the content unchanged. So whatever it returns is the text
  it was given, and a second call on that text returns it again.
\<close>

theorem checkBadWords_outcome:
  "checkBadWords strapi env content =
     (let config = getConfig strapi env (BAD_WORDS env) (JBool True) False;
          flt = BadWordsFilter env (if isObject config then config else JUndefined)
      in if truthy config \<and> truthy content \<and> isProfane flt content
         then Inl (PluginError 400 ''Bad language used! Please polite your comment...''
                (JObj [(''content'', JObj [(''original'', content), (''filtered'', clean flt content)])]))
         else Inr content)
   \<and> (\<forall>c. checkBadWords strapi env content = Inr c \<longrightarrow>
          c = content \<and> checkBadWords strapi env c = Inr c)"
  by (auto simp add: checkBadWords_def Let_def)

theorem checkBadWords_outcome_witness:
  "checkBadWords (example_strapi example_config) example_env (JStr ''fine'') = Inr (JStr ''fine'')
   \<and> checkBadWords (example_strapi example_config) example_env (JStr ''darn it'')
       = Inl (PluginError 400 ''Bad language used! Please polite your comment...''
           (JObj [(''content'', JObj [(''original'', JStr ''darn it''), (''filtered'', JStr ''****'')])]))
   \<and> checkBadWords (example_strapi (JObj [(''badWords'', JBool False)])) example_env (JStr ''darn it'')
       = Inr (JStr ''darn it'')
   \<and> checkBadWords (example_strapi example_config) example_env (JStr []) = Inr (JStr [])"
proof -
  have fine: "checkBadWords (example_strapi example_config) example_env (JStr ''fine'') = Inr (JStr ''fine'')"
    by code_simp
  have again: "JStr ''fine'' = JStr ''fine''
      \<and> checkBadWords (example_strapi example_config) example_env (JStr ''fine'') = Inr (JStr ''fine'')"
    using checkBadWords_outcome [of "example_strapi example_config" example_env "JStr ''fine''"] fine
    by blast
  have profane: "checkBadWords (example_strapi example_config) example_env (JStr ''darn it'')
       = Inl (PluginError 400 ''Bad language used! Please polite your comment...''
           (JObj [(''content'', JObj [(''original'', JStr ''darn it''), (''filtered'', JStr ''****'')])]))"
    by code_simp
  have disabled: "checkBadWords (example_strapi (JObj [(''badWords'', JBool False)])) example_env (JStr ''darn it'')
       = Inr (JStr ''darn it'')"
    by code_simp
  have empty: "checkBadWords (example_strapi example_config) example_env (JStr []) = Inr (JStr [])"
    by code_simp
  from again profane disabled empty show ?thesis by blast
qed

section \<open>The relation token\<close>

text \<open>What decoding does on every token of an enabled collection: the record id is
  \<^verbatim>\<open>parseInt\<close> of the id part, so a number or \<^verbatim>\<open>NaN\<close> and never a string; the id part
  that is the numeral of an integer of magnitude at most \<open>2^53\<close> is decoded to that
  integer.\<close>

lemma parseRelationString_decodes:
  assumes "getRelatedGroups env relation = Inr groups"
    and "js_includes (getConfig strapi env (ENABLED_COLLECTIONS env) (JArr []) False) (element groups 0)
           = Inr True"
  shows "parseRelationString strapi env relation = Inr (element groups 0, parseInt (element groups 1))"
  using assms by (simp add: parseRelationString_def bindR_def Let_def isNumber_parseInt)

lemma parseRelationString_numeral:
  assumes "getRelatedGroups env relation = Inr [JStr uid, JStr (show_int n)]"
    and "\<bar>n\<bar> \<le> 9007199254740992"
    and "js_includes (getConfig strapi env (ENABLED_COLLECTIONS env) (JArr []) False) (JStr uid) = Inr True"
  shows "parseRelationString strapi env relation = Inr (JStr uid, JNum n)"
  using parseRelationString_decodes [of env relation "[JStr uid, JStr (show_int n)]" strapi] assms
  by (simp add: element_def parseInt_show_int)

text \<open>
  Claim C3. Decoding a relation token gives its collection id and its record id, the
  record id as a number when it parses as an integer and as the string it was otherwise.
  The code does the first and not the second: lodash \<^verbatim>\<open>isNumber\<close> holds of \<^verbatim>\<open>NaN\<close>,
  so the test \<^verbatim>\<open>isNumber(parsedRelatedId)\<close> never fails and a record id that does not
  parse is returned as \<^verbatim>\<open>NaN\<close>. On the token \<^verbatim>\<open>article:abc\<close>, with \<^verbatim>\<open>article\<close> an
  enabled collection, \<^verbatim>\<open>parseRelationString\<close> returns \<^verbatim>\<open>["article", NaN]\<close>; on
  \<^verbatim>\<open>article:42\<close> it returns \<^verbatim>\<open>["article", 42]\<close>.
\<close>

theorem parseRelationString_unparsed_id:
  "parseRelationString (example_strapi example_config) example_env (JStr ''article:abc'')
     = Inr (JStr ''article'', JNaN)
   \<and> parseRelationString (example_strapi example_config) example_env (JStr ''article:42'')
     = Inr (JStr ''article'', JNum 42)"
  by code_simp

section \<open>Single comments\<close>

text \<open>
  Claim C8. \<^verbatim>\<open>findOne(criteria)\<close> raises the 404 error exactly when the lookup of the
  store yields no record. When it yields a record, \<^verbatim>\<open>findOne\<close> returns the sanitized
  entity with the resolved reports removed from \<^verbatim>\<open>reports\<close>: the reports that are left
  are the unresolved ones, in their order. An error of the store itself is passed on.
\<close>

theorem findOne_outcome:
  "(case q_findOne (db strapi (getModelUid env ''comment'')) s
           (JObj [(''where'', criteria),
                  (''populate'', JObj [(''reports'', JBool True), (''authorUser'', JBool True)])]) of
      Inl e \<Rightarrow> findOne strapi env s criteria = Inl e
    | Inr entity \<Rightarrow>
        ((\<exists>message payload. findOne strapi env s criteria = Inl (PluginError 404 message payload))
           \<longleftrightarrow> \<not> truthy entity)
        \<and> (truthy entity \<longrightarrow>
             (\<exists>found. findOne strapi env s criteria = Inr found
                \<and> found = filterOurResolvedReports (sanitizeCommentEntity env entity)
                \<and> reports_of found
                    = filter (\<lambda>r. \<not> resolved r) (reports_of (sanitizeCommentEntity env entity))
                \<and> (\<forall>r \<in> set (reports_of found). \<not> resolved r))))"
  by (auto simp add: findOne_def bindR_def reports_of_filterOurResolvedReports split: sum.splits)

theorem findOne_outcome_witness:
  "findOne (example_strapi example_config) example_env example_reported (JObj [(''id'', JNum 1)])
     = Inr (JObj [(''id'', JNum 1), (''threadOf'', JNull), (''related'', JStr ''article:1''),
                  (''reports'', JArr [JObj [(''id'', JNum 11), (''resolved'', JBool False)]])])
   \<and> findOne (example_strapi example_config) example_env example_reported (JObj [(''id'', JNum 9)])
     = Inl (PluginError 404 ''Comment does not exist. Check your payload please.'' JUndefined)"
proof -
  let ?S = "example_strapi example_config"
  let ?populate = "JObj [(''reports'', JBool True), (''authorUser'', JBool True)]"
  have found: "q_findOne (db ?S (getModelUid example_env ''comment'')) example_reported
          (JObj [(''where'', JObj [(''id'', JNum 1)]), (''populate'', ?populate)]) = Inr reported_comment"
    by code_simp
  have missing: "q_findOne (db ?S (getModelUid example_env ''comment'')) example_reported
          (JObj [(''where'', JObj [(''id'', JNum 9)]), (''populate'', ?populate)]) = Inr JNull"
    by code_simp
  have present: "truthy reported_comment"
    by (simp add: reported_comment_def)
  have cleaned: "filterOurResolvedReports (sanitizeCommentEntity example_env reported_comment)
      = JObj [(''id'', JNum 1), (''threadOf'', JNull), (''related'', JStr ''article:1''),
              (''reports'', JArr [JObj [(''id'', JNum 11), (''resolved'', JBool False)]])]"
    by code_simp
  have one: "findOne ?S example_env example_reported (JObj [(''id'', JNum 1)])
     = Inr (JObj [(''id'', JNum 1), (''threadOf'', JNull), (''related'', JStr ''article:1''),
                  (''reports'', JArr [JObj [(''id'', JNum 11), (''resolved'', JBool False)]])])"
    using findOne_outcome [of ?S example_env example_reported "JObj [(''id'', JNum 1)]"] present
    by (auto simp add: found cleaned)
  have "\<exists>message payload. findOne ?S example_env example_reported (JObj [(''id'', JNum 9)])
      = Inl (PluginError 404 message payload)"
    using findOne_outcome [of ?S example_env example_reported "JObj [(''id'', JNum 9)]"]
    by (simp add: missing)
  moreover have "findOne ?S example_env example_reported (JObj [(''id'', JNum 9)])
      = Inl (PluginError 404 ''Comment does not exist. Check your payload please.'' JUndefined)"
    by code_simp
  ultimately show ?thesis using one by blast
qed

section \<open>The cascading update\<close>

lemma catch_false_never_rejects: "catch_false outcome \<noteq> (Some (Inl e), s')"
  by (auto simp add: catch_false_def split: prod.splits option.splits sum.splits)

text \<open>
  Claim C2. \<^verbatim>\<open>modifiedNestedNestedComments\<close> never passes an exception to its caller:
  whatever the depth allowed, the promise it returns is not rejected. With room for the
  call itself and none for a recursive one (\<open>Suc depth\<close>, also for \<open>depth = 0\<close>):
  a store error during the fetch of the children, or during the batch update, makes the
  call return \<^verbatim>\<open>false\<close>; and when the number of fetched children differs from the
  number of records the update reports, the call returns (with \<^verbatim>\<open>true\<close>) in the state
  that this one update left, so without a recursive call. The read of \<^verbatim>\<open>strapi.bd\<close> on
  an instance without that property is one of the errors that are caught.
\<close>

theorem cascade_local_recovery:
  "(\<forall>e s'. modifiedNestedNestedComments depth strapi env commentId fieldName val s \<noteq> (Some (Inl e), s'))
   \<and> (bd strapi = None \<longrightarrow>
        modifiedNestedNestedComments (Suc depth) strapi env commentId fieldName val s = (Some (Inr False), s))
   \<and> (\<forall>query e.
        bd strapi = Some query
        \<and> q_findMany (query (getModelUid env ''comment'')) s
             (JObj [(''where'', JObj [(''threadOf'', commentId)])]) = Inl e
        \<longrightarrow> modifiedNestedNestedComments (Suc depth) strapi env commentId fieldName val s
              = (Some (Inr False), s))
   \<and> (\<forall>query entitiesToChange ids e s1.
        bd strapi = Some query
        \<and> q_findMany (query (getModelUid env ''comment'')) s
             (JObj [(''where'', JObj [(''threadOf'', commentId)])]) = Inr entitiesToChange
        \<and> mapM (\<lambda>entity. member entity ''id'') entitiesToChange = Inr ids
        \<and> q_updateMany (query (getModelUid env ''comment'')) s
             (JObj [(''where'', JObj [(''id'', JArr ids)]), (''data'', JObj [(fieldName, val)])])
            = (Inl e, s1)
        \<longrightarrow> modifiedNestedNestedComments (Suc depth) strapi env commentId fieldName val s
              = (Some (Inr False), s1))
   \<and> (\<forall>query entitiesToChange ids changedEntities s1.
        bd strapi = Some query
        \<and> q_findMany (query (getModelUid env ''comment'')) s
             (JObj [(''where'', JObj [(''threadOf'', commentId)])]) = Inr entitiesToChange
        \<and> mapM (\<lambda>entity. member entity ''id'') entitiesToChange = Inr ids
        \<and> q_updateMany (query (getModelUid env ''comment'')) s
             (JObj [(''where'', JObj [(''id'', JArr ids)]), (''data'', JObj [(fieldName, val)])])
            = (Inr changedEntities, s1)
        \<and> length entitiesToChange \<noteq> length changedEntities
        \<longrightarrow> modifiedNestedNestedComments (Suc depth) strapi env commentId fieldName val s
              = (Some (Inr True), s1))"
proof (intro conjI allI impI)
  fix e s'
  show "modifiedNestedNestedComments depth strapi env commentId fieldName val s \<noteq> (Some (Inl e), s')"
    by (cases depth) (simp_all add: catch_false_never_rejects)
qed (simp_all add: catch_false_def)

theorem cascade_local_recovery_witness:
  "modifiedNestedNestedComments (Suc 0) (strapi_with_bd short_update_engine) example_env
      (JNum 1) ''blocked'' (JBool True) example_thread
     = (Some (Inr True), example_thread_level1)
   \<and> modifiedNestedNestedComments (Suc 0) (strapi_with_bd (failing_fetch_engine (JNum 1))) example_env
      (JNum 1) ''blocked'' (JBool True) example_thread
     = (Some (Inr False), example_thread)
   \<and> modifiedNestedNestedComments (Suc 0) (strapi_with_bd failing_update_engine) example_env
      (JNum 1) ''blocked'' (JBool True) example_thread
     = (Some (Inr False), example_thread)
   \<and> modifiedNestedNestedComments (Suc 0) (example_strapi example_config) example_env
      (JNum 1) ''blocked'' (JBool True) example_thread
     = (Some (Inr False), example_thread)"
proof -
  let ?where = "JObj [(''where'', JObj [(''threadOf'', JNum 1)])]"
  let ?update = "JObj [(''where'', JObj [(''id'', JArr [JNum 2, JNum 3])]),
                       (''data'', JObj [(''blocked'', JBool True)])]"
  let ?short = "strapi_with_bd short_update_engine"
  let ?failing = "strapi_with_bd (failing_fetch_engine (JNum 1))"
  have bd_short: "bd ?short = Some short_update_engine"
    by (simp add: strapi_with_bd_def)
  have fetched: "q_findMany (short_update_engine (getModelUid example_env ''comment'')) example_thread ?where
      = Inr [comment 2 (JNum 1) ''article:1'', comment 3 (JNum 1) ''article:1'']"
    by code_simp
  have ids: "mapM (\<lambda>entity. member entity ''id'')
        [comment 2 (JNum 1) ''article:1'', comment 3 (JNum 1) ''article:1''] = Inr [JNum 2, JNum 3]"
    by code_simp
  have updated: "q_updateMany (short_update_engine (getModelUid example_env ''comment'')) example_thread ?update
      = (Inr [blocked_comment 3 (JNum 1) ''article:1''], example_thread_level1)"
    by code_simp
  have mismatch: "modifiedNestedNestedComments (Suc 0) ?short example_env
      (JNum 1) ''blocked'' (JBool True) example_thread = (Some (Inr True), example_thread_level1)"
    using cascade_local_recovery [of 0 ?short example_env "JNum 1" "''blocked''" "JBool True" example_thread]
      bd_short fetched ids updated
    by (auto simp del: modifiedNestedNestedComments.simps)
  have bd_failing: "bd ?failing = Some (failing_fetch_engine (JNum 1))"
    by (simp add: strapi_with_bd_def)
  have failed: "q_findMany (failing_fetch_engine (JNum 1) (getModelUid example_env ''comment'')) example_thread ?where
      = Inl (StoreError ''connection lost'')"
    by code_simp
  have lost: "modifiedNestedNestedComments (Suc 0) ?failing example_env
      (JNum 1) ''blocked'' (JBool True) example_thread = (Some (Inr False), example_thread)"
    using cascade_local_recovery [of 0 ?failing example_env "JNum 1" "''blocked''" "JBool True" example_thread]
      bd_failing failed
    by (auto simp del: modifiedNestedNestedComments.simps)
  let ?refusing = "strapi_with_bd failing_update_engine"
  have bd_refusing: "bd ?refusing = Some failing_update_engine"
    by (simp add: strapi_with_bd_def)
  have fetched': "q_findMany (failing_update_engine (getModelUid example_env ''comment'')) example_thread ?where
      = Inr [comment 2 (JNum 1) ''article:1'', comment 3 (JNum 1) ''article:1'']"
    by code_simp
  have refused_update: "q_updateMany (failing_update_engine (getModelUid example_env ''comment'')) example_thread
      ?update = (Inl (StoreError ''write refused''), example_thread)"
    by code_simp
  have refused: "modifiedNestedNestedComments (Suc 0) ?refusing example_env
      (JNum 1) ''blocked'' (JBool True) example_thread = (Some (Inr False), example_thread)"
    using cascade_local_recovery [of 0 ?refusing example_env "JNum 1" "''blocked''" "JBool True" example_thread]
      bd_refusing fetched' ids refused_update
    by (auto simp del: modifiedNestedNestedComments.simps)
  have no_bd: "bd (example_strapi example_config) = None"
    by (simp add: example_strapi_def)
  have typo: "modifiedNestedNestedComments (Suc 0) (example_strapi example_config) example_env
      (JNum 1) ''blocked'' (JBool True) example_thread = (Some (Inr False), example_thread)"
    using cascade_local_recovery [of 0 "example_strapi example_config" example_env "JNum 1" "''blocked''"
        "JBool True" example_thread] no_bd
    by (auto simp del: modifiedNestedNestedComments.simps)
  from mismatch lost refused typo show ?thesis by blast
qed

text \<open>Where \<^verbatim>\<open>bd\<close> is a query source and the recursive calls return, the outcomes they
  return do not matter: the call returns \<^verbatim>\<open>true\<close>.\<close>

lemma runAll_length:
  "runAll f xs s = (Some (Inr ys), s') \<Longrightarrow> length ys = length xs"
proof (induction xs arbitrary: s ys)
  case Nil
  then show ?case by simp
next
  case (Cons x xs)
  then show ?case
    by (auto split: prod.splits option.splits sum.splits)
qed

lemma cascade_ignores_child_outcomes:
  assumes "bd strapi = Some query"
    and "q_findMany (query (getModelUid env ''comment'')) s
           (JObj [(''where'', JObj [(''threadOf'', commentId)])]) = Inr entitiesToChange"
    and "mapM (\<lambda>entity. member entity ''id'') entitiesToChange = Inr ids"
    and "q_updateMany (query (getModelUid env ''comment'')) s
           (JObj [(''where'', JObj [(''id'', JArr ids)]), (''data'', JObj [(fieldName, val)])])
          = (Inr changedEntities, s1)"
    and "length entitiesToChange = length changedEntities" and "0 < length changedEntities"
    and "runAll (\<lambda>item s'. if isNil item then (Some (Inl TypeError), s')
                           else modifiedNestedNestedComments depth strapi env
                                  (get_prop ''id'' item) fieldName val s')
           changedEntities s1 = (Some (Inr nestedTransactions), s2)"
  shows "modifiedNestedNestedComments (Suc depth) strapi env commentId fieldName val s
           = (Some (Inr True), s2)"
proof -
  from runAll_length [OF assms(7)] have "length nestedTransactions = length changedEntities" .
  with assms show ?thesis
    by (simp add: catch_false_def)
qed

text \<open>
  Claim C1. A call on a comment without children returns \<^verbatim>\<open>true\<close>, and a call whose
  children were all updated recurses into each of them and returns \<^verbatim>\<open>true\<close> exactly
  when every recursive call does. The code does neither.

  \<^item> It reaches the store through \<^verbatim>\<open>strapi.bd\<close>, where every other function of the file
    uses \<^verbatim>\<open>strapi.db\<close>. On a Strapi instance \<^verbatim>\<open>bd\<close> is \<^verbatim>\<open>undefined\<close>, the read of
    \<^verbatim>\<open>query\<close> throws, and the \<^verbatim>\<open>catch\<close> returns \<^verbatim>\<open>false\<close>: for comment 4, which
    has no children, and for comment 1, whose children are left as they were.
  \<^item> Where \<^verbatim>\<open>bd\<close> is a query source, the result of the recursion is
    \<^verbatim>\<open>nestedTransactions.length === changedEntities.length\<close>, which compares the length
    of a list with the length of the list it was mapped from. The call on comment 1
    returns \<^verbatim>\<open>true\<close> although the recursive call on comment 2 returns \<^verbatim>\<open>false\<close>
    (the fetch of its children fails).
\<close>

theorem cascade_outcome_on_examples:
  "modifiedNestedNestedComments 3 (example_strapi example_config) example_env
      (JNum 4) ''blocked'' (JBool True) example_thread = (Some (Inr False), example_thread)
   \<and> modifiedNestedNestedComments 3 (example_strapi example_config) example_env
      (JNum 1) ''blocked'' (JBool True) example_thread = (Some (Inr False), example_thread)
   \<and> modifiedNestedNestedComments 3 (strapi_with_bd (failing_fetch_engine (JNum 2))) example_env
      (JNum 1) ''blocked'' (JBool True) example_thread = (Some (Inr True), example_thread_level1)
   \<and> modifiedNestedNestedComments 2 (strapi_with_bd (failing_fetch_engine (JNum 2))) example_env
      (JNum 2) ''blocked'' (JBool True) example_thread_level1 = (Some (Inr False), example_thread_level1)"
  by code_simp

section \<open>Flat retrieval\<close>

lemma parseInt_not_nil: "parseInt v \<noteq> JUndefined \<and> parseInt v \<noteq> JNull \<and> \<not> isNil (parseInt v)"
  using parseInt_number [of v] by auto

lemma map_of_parsedPagination:
  "map_of (parsedPagination (JObj kvs)) k = map_option parseInt (map_of kvs k)"
  by (induction kvs) (auto simp add: parsedPagination_def)

lemma destructure_parsedPagination:
  "destructure k d (parsedPagination (JObj kvs)) = pagination_value kvs k d"
  by (simp add: destructure_def pagination_value_def map_of_parsedPagination parseInt_not_nil
      split: option.splits)

lemma paginationByPage_parsedPagination:
  "paginationByPage (parsedPagination (JObj kvs))
     \<longleftrightarrow> map_of kvs ''page'' \<noteq> None \<or> map_of kvs ''pageSize'' \<noteq> None"
  by (auto simp add: paginationByPage_def map_of_parsedPagination parseInt_not_nil split: option.splits)

lemma paginate_object:
  "paginate (JObj kvs) sortExt =
     (if map_of kvs ''page'' \<noteq> None \<or> map_of kvs ''pageSize'' \<noteq> None
      then (assign_all sortExt
              [(''offset'', js_mul (js_sub (pagination_value kvs ''page'' (JNum 1)) (JNum 1))
                              (pagination_value kvs ''pageSize'' (JNum 10))),
               (''limit'', pagination_value kvs ''pageSize'' (JNum 10))],
            [(''pagination'', JObj [(''page'', pagination_value kvs ''page'' (JNum 1)),
                                    (''pageSize'', pagination_value kvs ''pageSize'' (JNum 10))])])
      else (assign_all sortExt
              [(''offset'', pagination_value kvs ''start'' (JNum 0)),
               (''limit'', pagination_value kvs ''limit'' (JNum 10))],
            [(''pagination'', JObj [(''start'', pagination_value kvs ''start'' (JNum 0)),
                                    (''limit'', pagination_value kvs ''limit'' (JNum 10))])]))"
  unfolding paginate_def Let_def destructure_parsedPagination paginationByPage_parsedPagination
  by simp

lemma sortExtension_shape:
  "sortExtension env sortArg = Inr sortExt \<Longrightarrow> sortExt = [] \<or> (\<exists>ob. sortExt = [(''orderBy'', ob)])"
  by (auto simp add: sortExtension_def bindR_def split: if_splits sum.splits)

lemma findManyParams_paged:
  assumes "sortExt = [] \<or> (\<exists>ob. sortExt = [(''orderBy'', ob)])"
  shows "findManyParams query populate (assign_all sortExt [(''offset'', offset), (''limit'', limit)])
     = JObj ([(''where'', JObj (own_entries query)),
              (''populate'', JObj (assign_all [(''authorUser'', JBool True)] (own_entries populate)))]
             @ sortExt @ [(''offset'', offset), (''limit'', limit)])"
  using assms by (auto simp add: findManyParams_def assign_all_def)

lemma findAllFlat_query_error:
  assumes "sortExtension env sortArg = Inr sortExt"
    and "q_findMany (db strapi (getModelUid env ''comment'')) s
           (findManyParams (default_to (JObj []) query0) (default_to (JObj []) populate0)
              (fst (paginate pagination sortExt))) = Inl e"
  shows "findAllFlat strapi env s query0 populate0 sortArg pagination relatedEntity0 = Inl e"
  using assms by (simp add: findAllFlat_def bindR_def Let_def case_prod_beta)

lemma findAllFlat_Inr:
  assumes "findAllFlat strapi env s query0 populate0 sortArg pagination relatedEntity0 = Inr response"
  shows "\<exists>sortExt entries meta entriesWithThreads relatedEntities result data.
     sortExtension env sortArg = Inr sortExt
     \<and> q_findMany (db strapi (getModelUid env ''comment'')) s
           (findManyParams (default_to (JObj []) query0) (default_to (JObj []) populate0)
              (fst (paginate pagination sortExt))) = Inr entries
     \<and> (if withCountRequested pagination
         then bindR (q_count (db strapi (getModelUid env ''comment'')) s
                       (JObj [(''where'', JObj (own_entries (default_to (JObj []) query0)))]))
                (\<lambda>total'. Inr (countMeta (snd (paginate pagination sortExt)) total'))
         else Inr (snd (paginate pagination sortExt))) = Inr meta
     \<and> mapM (threadSummary strapi env s) entries = Inr entriesWithThreads
     \<and> (if default_to JNull relatedEntity0 \<noteq> JNull then Inr [default_to JNull relatedEntity0]
         else findRelatedEntitiesFor strapi env s entries) = Inr relatedEntities
     \<and> mapM (flatEntry env (default_to (JObj []) query0) entriesWithThreads) entries = Inr result
     \<and> (if filter truthy relatedEntities \<noteq> []
         then mapM (\<lambda>comment. mergeRelatedEntityTo comment relatedEntities) result
         else Inr result) = Inr data
     \<and> response = JObj ((''data'', JArr data) # (if meta = [] then [] else [(''meta'', JObj meta)]))"
proof -
  obtain sortExt where sort: "sortExtension env sortArg = Inr sortExt"
    using assms by (cases "sortExtension env sortArg") (simp_all add: findAllFlat_def bindR_def Let_def)
  let ?q = "default_to (JObj []) query0"
  let ?ext = "fst (paginate pagination sortExt)"
  let ?paged = "snd (paginate pagination sortExt)"
  let ?comments = "db strapi (getModelUid env ''comment'')"
  let ?fetch = "q_findMany ?comments s (findManyParams ?q (default_to (JObj []) populate0) ?ext)"
  let ?count = "if withCountRequested pagination
         then bindR (q_count ?comments s (JObj [(''where'', JObj (own_entries ?q))]))
                (\<lambda>total'. Inr (countMeta ?paged total'))
         else Inr ?paged"
  let ?related = "\<lambda>entries. if default_to JNull relatedEntity0 \<noteq> JNull then Inr [default_to JNull relatedEntity0]
         else findRelatedEntitiesFor strapi env s entries"
  have unfolded: "findAllFlat strapi env s query0 populate0 sortArg pagination relatedEntity0 =
      bindR ?fetch (\<lambda>entries.
      bindR ?count (\<lambda>meta.
      bindR (mapM (threadSummary strapi env s) entries) (\<lambda>entriesWithThreads.
      bindR (?related entries) (\<lambda>relatedEntities.
      bindR (mapM (flatEntry env ?q entriesWithThreads) entries) (\<lambda>result.
      bindR (if filter truthy relatedEntities \<noteq> []
             then mapM (\<lambda>comment. mergeRelatedEntityTo comment relatedEntities) result
             else Inr result) (\<lambda>data.
        Inr (JObj ((''data'', JArr data) # (if meta = [] then [] else [(''meta'', JObj meta)])))))))))"
    using sort by (simp add: findAllFlat_def bindR_def Let_def case_prod_beta)
  from assms unfolded obtain entries where entries: "?fetch = Inr entries"
    by (cases ?fetch) (simp_all add: bindR_def)
  from assms unfolded entries obtain meta where meta: "?count = Inr meta"
    by (cases ?count) (simp_all add: bindR_def)
  from assms unfolded entries meta obtain ewt where ewt: "mapM (threadSummary strapi env s) entries = Inr ewt"
    by (cases "mapM (threadSummary strapi env s) entries") (simp_all add: bindR_def)
  from assms unfolded entries meta ewt obtain res where res: "?related entries = Inr res"
    by (cases "?related entries") (simp_all add: bindR_def)
  from assms unfolded entries meta ewt res obtain result where
    result: "mapM (flatEntry env ?q ewt) entries = Inr result"
    by (cases "mapM (flatEntry env ?q ewt) entries") (simp_all add: bindR_def)
  let ?merge = "if filter truthy res \<noteq> []
             then mapM (\<lambda>comment. mergeRelatedEntityTo comment res) result
             else Inr result"
  from assms unfolded entries meta ewt res result obtain data where data: "?merge = Inr data"
    by (cases ?merge) (simp_all add: bindR_def)
  from assms unfolded entries meta ewt res result data
  have "response = JObj ((''data'', JArr data) # (if meta = [] then [] else [(''meta'', JObj meta)]))"
    by (simp add: bindR_def)
  with sort entries meta ewt res result data show ?thesis by blast
qed

lemmas parseInt_eval = parseInt_def lodash_toString_def parseInt_string_def is_space_def strip_hex_def
  parse_digits_def is_digit_def digit_val_def digits_value_def number_def

text \<open>Beyond \<open>2^53\<close> a numeral is read as the nearest double: \<open>2^53 + 1\<close> as \<open>2^53\<close>,
  the tie going to the even mantissa, and \<open>2^53 + 3\<close> as \<open>2^53 + 4\<close>.\<close>

lemma bit_length_numeral: "bit_length (numeral k) = Suc (bit_length (numeral k div 2))"
  by (subst bit_length.simps) simp

lemma bit_length_small: "bit_length 0 = 0" "bit_length (Suc 0) = Suc 0"
  by (simp_all add: bit_length.simps)

lemma parseInt_rounds:
  "parseInt (JStr ''9007199254740993'') = JNum 9007199254740992
   \<and> parseInt (JStr ''9007199254740995'') = JNum 9007199254740996"
  by (simp add: parseInt_eval nearest_double_def Let_def bit_length_numeral bit_length_small)

lemma parseInt_no_digit:
  assumes "\<not> is_space c" and "c \<noteq> CHR ''-''" and "c \<noteq> CHR ''+''" and "\<not> is_digit 10 c"
  shows "parseInt (JStr (c # rest)) = JNaN"
proof -
  have "c \<noteq> CHR ''0''"
    using assms(4) by (auto simp add: is_digit_def digit_val_def)
  then have "strip_hex (c # rest) = None"
    by (simp add: strip_hex_def split: list.splits)
  with assms show ?thesis
    by (simp add: parseInt_def lodash_toString_def parseInt_string_def parse_digits_def)
qed

lemma parseInt_not_a_numeral:
  "parseInt (JStr ''abc'') = JNaN \<and> parseInt (JStr []) = JNaN \<and> parseInt (JBool b) = JNaN
   \<and> parseInt JNull = JNaN \<and> parseInt JUndefined = JNaN \<and> parseInt (JObj obj) = JNaN"
  by (cases b) (simp_all add: parseInt_eval)

text \<open>
  Claim C4. For a pagination object: when it has a key \<^verbatim>\<open>page\<close> or \<^verbatim>\<open>pageSize\<close>, the
  query of the store has \<^verbatim>\<open>offset = (page - 1) * pageSize\<close> and \<^verbatim>\<open>limit = pageSize\<close>,
  with 1 and 10 for a key that is absent, and the meta of the response is
  \<^verbatim>\<open>{pagination: {page, pageSize}}\<close>; otherwise the query has \<^verbatim>\<open>offset = start\<close> and
  \<^verbatim>\<open>limit = limit\<close>, with 0 and 10 for a key that is absent, and the meta is
  \<^verbatim>\<open>{pagination: {start, limit}}\<close>. The value of a key that is given is \<^verbatim>\<open>parseInt\<close> of
  what was given. That is an integer for some values and not for every one, as the claim
  has it: an integer of magnitude at most \<open>2^53\<close>, given as a number or as its decimal
  numeral, is read as that integer; a string that begins with an ASCII character other
  than a digit, a sign and white space, the empty string, a boolean, \<^verbatim>\<open>null\<close>,
  \<^verbatim>\<open>undefined\<close> and an object are read as \<^verbatim>\<open>NaN\<close>, which is then the page, the
  page size, the offset or the limit;
  and every value is read as an integer, as \<^verbatim>\<open>NaN\<close> or as an infinity.

  The theorem gives the criteria object \<open>params\<close> of the \<^verbatim>\<open>findMany\<close> call in full
  (a failure of the store on exactly this object is the failure of \<^verbatim>\<open>findAllFlat\<close>, and
  a response of \<^verbatim>\<open>findAllFlat\<close> means that the store answered it), and the meta of a
  response for which no count was requested; the count adds to this meta and is the
  subject of the next claim.
\<close>

theorem findAllFlat_pagination:
  assumes sorted: "sortExtension env sortArg = Inr sortExt"
  shows
    "(let page = pagination_value kvs ''page'' (JNum 1);
          pageSize = pagination_value kvs ''pageSize'' (JNum 10);
          start = pagination_value kvs ''start'' (JNum 0);
          limit = pagination_value kvs ''limit'' (JNum 10);
          byPage = (map_of kvs ''page'' \<noteq> None \<or> map_of kvs ''pageSize'' \<noteq> None);
          params = JObj ([(''where'', JObj (own_entries (default_to (JObj []) query0))),
                          (''populate'', JObj (assign_all [(''authorUser'', JBool True)]
                                                 (own_entries (default_to (JObj []) populate0))))]
                         @ sortExt
                         @ [(''offset'', if byPage then js_mul (js_sub page (JNum 1)) pageSize else start),
                            (''limit'', if byPage then pageSize else limit)]);
          meta = [(''pagination'',
                     JObj (if byPage then [(''page'', page), (''pageSize'', pageSize)]
                           else [(''start'', start), (''limit'', limit)]))]
      in findManyParams (default_to (JObj []) query0) (default_to (JObj []) populate0)
           (fst (paginate (JObj kvs) sortExt)) = params
         \<and> snd (paginate (JObj kvs) sortExt) = meta
         \<and> (\<forall>e. q_findMany (db strapi (getModelUid env ''comment'')) s params = Inl e
               \<longrightarrow> findAllFlat strapi env s query0 populate0 sortArg (JObj kvs) relatedEntity0 = Inl e)
         \<and> (\<forall>response.
               findAllFlat strapi env s query0 populate0 sortArg (JObj kvs) relatedEntity0 = Inr response
               \<longrightarrow> (\<exists>entries. q_findMany (db strapi (getModelUid env ''comment'')) s params = Inr entries)
                   \<and> (\<not> withCountRequested (JObj kvs) \<longrightarrow> get_prop ''meta'' response = JObj meta)))
     \<and> (\<forall>k d. map_of kvs k = None \<longrightarrow> pagination_value kvs k d = d)
     \<and> (\<forall>k d v. map_of kvs k = Some v \<longrightarrow> pagination_value kvs k d = parseInt v)
     \<and> (\<forall>n. \<bar>n\<bar> \<le> 9007199254740992
            \<longrightarrow> parseInt (JStr (show_int n)) = JNum n \<and> parseInt (JNum n) = JNum n)
     \<and> (\<forall>c rest. of_char c < (128 :: nat) \<and> \<not> is_space c \<and> c \<noteq> CHR ''-'' \<and> c \<noteq> CHR ''+''
              \<and> \<not> is_digit 10 c
            \<longrightarrow> parseInt (JStr (c # rest)) = JNaN)
     \<and> (\<forall>b obj. parseInt (JStr ''abc'') = JNaN \<and> parseInt (JStr []) = JNaN \<and> parseInt (JBool b) = JNaN
            \<and> parseInt JNull = JNaN \<and> parseInt JUndefined = JNaN \<and> parseInt (JObj obj) = JNaN)
     \<and> (\<forall>v. parseInt v = JNaN \<or> (\<exists>n. parseInt v = JNum n) \<or> (\<exists>b. parseInt v = JInf b))"
proof -
  let ?page = "pagination_value kvs ''page'' (JNum 1)"
  let ?pageSize = "pagination_value kvs ''pageSize'' (JNum 10)"
  let ?start = "pagination_value kvs ''start'' (JNum 0)"
  let ?limit = "pagination_value kvs ''limit'' (JNum 10)"
  let ?byPage = "map_of kvs ''page'' \<noteq> None \<or> map_of kvs ''pageSize'' \<noteq> None"
  let ?offset = "if ?byPage then js_mul (js_sub ?page (JNum 1)) ?pageSize else ?start"
  let ?lim = "if ?byPage then ?pageSize else ?limit"
  let ?q = "default_to (JObj []) query0"
  let ?p = "default_to (JObj []) populate0"
  let ?params = "JObj ([(''where'', JObj (own_entries ?q)),
                        (''populate'', JObj (assign_all [(''authorUser'', JBool True)] (own_entries ?p)))]
                       @ sortExt @ [(''offset'', ?offset), (''limit'', ?lim)])"
  let ?meta = "[(''pagination'',
                   JObj (if ?byPage then [(''page'', ?page), (''pageSize'', ?pageSize)]
                         else [(''start'', ?start), (''limit'', ?limit)]))]"
  have shape: "sortExt = [] \<or> (\<exists>ob. sortExt = [(''orderBy'', ob)])"
    using sorted by (rule sortExtension_shape)
  have ext: "fst (paginate (JObj kvs) sortExt) = assign_all sortExt [(''offset'', ?offset), (''limit'', ?lim)]"
    by (simp add: paginate_object)
  have params: "findManyParams ?q ?p (fst (paginate (JObj kvs) sortExt)) = ?params"
    unfolding ext using shape by (rule findManyParams_paged)
  have meta: "snd (paginate (JObj kvs) sortExt) = ?meta"
    by (simp add: paginate_object)
  have failure: "findAllFlat strapi env s query0 populate0 sortArg (JObj kvs) relatedEntity0 = Inl e"
    if "q_findMany (db strapi (getModelUid env ''comment'')) s ?params = Inl e" for e
    using sorted that unfolding params [symmetric] by (rule findAllFlat_query_error)
  have success: "(\<exists>entries. q_findMany (db strapi (getModelUid env ''comment'')) s ?params = Inr entries)
      \<and> (\<not> withCountRequested (JObj kvs) \<longrightarrow> get_prop ''meta'' response = JObj ?meta)"
    if "findAllFlat strapi env s query0 populate0 sortArg (JObj kvs) relatedEntity0 = Inr response"
    for response
  proof -
    from findAllFlat_Inr [OF that] obtain sortExt' entries meta' data where
      s': "sortExtension env sortArg = Inr sortExt'"
      and fetched: "q_findMany (db strapi (getModelUid env ''comment'')) s
           (findManyParams ?q ?p (fst (paginate (JObj kvs) sortExt'))) = Inr entries"
      and counted: "(if withCountRequested (JObj kvs)
         then bindR (q_count (db strapi (getModelUid env ''comment'')) s
                       (JObj [(''where'', JObj (own_entries ?q))]))
                (\<lambda>total'. Inr (countMeta (snd (paginate (JObj kvs) sortExt')) total'))
         else Inr (snd (paginate (JObj kvs) sortExt'))) = Inr meta'"
      and response: "response = JObj ((''data'', JArr data) # (if meta' = [] then [] else [(''meta'', JObj meta')]))"
      by blast
    from s' sorted have same: "sortExt' = sortExt" by simp
    have "\<exists>entries. q_findMany (db strapi (getModelUid env ''comment'')) s ?params = Inr entries"
      using fetched unfolding same params by blast
    moreover have "get_prop ''meta'' response = JObj ?meta" if "\<not> withCountRequested (JObj kvs)"
    proof -
      from counted that have "meta' = snd (paginate (JObj kvs) sortExt)" by (simp add: same)
      then have "meta' = ?meta" by (simp only: meta)
      then show ?thesis by (simp add: response)
    qed
    ultimately show ?thesis by blast
  qed
  have call: "findManyParams ?q ?p (fst (paginate (JObj kvs) sortExt)) = ?params
         \<and> snd (paginate (JObj kvs) sortExt) = ?meta
         \<and> (\<forall>e. q_findMany (db strapi (getModelUid env ''comment'')) s ?params = Inl e
               \<longrightarrow> findAllFlat strapi env s query0 populate0 sortArg (JObj kvs) relatedEntity0 = Inl e)
         \<and> (\<forall>response.
               findAllFlat strapi env s query0 populate0 sortArg (JObj kvs) relatedEntity0 = Inr response
               \<longrightarrow> (\<exists>entries. q_findMany (db strapi (getModelUid env ''comment'')) s ?params = Inr entries)
                   \<and> (\<not> withCountRequested (JObj kvs) \<longrightarrow> get_prop ''meta'' response = JObj ?meta))"
  proof (intro conjI allI impI)
    show "findManyParams ?q ?p (fst (paginate (JObj kvs) sortExt)) = ?params"
      by (rule params)
    show "snd (paginate (JObj kvs) sortExt) = ?meta"
      by (rule meta)
  next
    fix e
    assume "q_findMany (db strapi (getModelUid env ''comment'')) s ?params = Inl e"
    then show "findAllFlat strapi env s query0 populate0 sortArg (JObj kvs) relatedEntity0 = Inl e"
      by (rule failure)
  next
    fix response
    assume answered: "findAllFlat strapi env s query0 populate0 sortArg (JObj kvs) relatedEntity0 = Inr response"
    from success [OF answered]
    show "\<exists>entries. q_findMany (db strapi (getModelUid env ''comment'')) s ?params = Inr entries"
      by (rule conjunct1)
    assume "\<not> withCountRequested (JObj kvs)"
    with success [OF answered] show "get_prop ''meta'' response = JObj ?meta"
      by (elim conjE impE)
  qed
  have absent: "\<forall>k d. map_of kvs k = None \<longrightarrow> pagination_value kvs k d = d"
    by (simp add: pagination_value_def)
  have given: "\<forall>k d v. map_of kvs k = Some v \<longrightarrow> pagination_value kvs k d = parseInt v"
    by (simp add: pagination_value_def)
  have exact: "\<forall>n. \<bar>n\<bar> \<le> 9007199254740992
            \<longrightarrow> parseInt (JStr (show_int n)) = JNum n \<and> parseInt (JNum n) = JNum n"
    using parseInt_show_int parseInt_JNum by blast
  have no_digit: "\<forall>c rest. of_char c < (128 :: nat) \<and> \<not> is_space c \<and> c \<noteq> CHR ''-'' \<and> c \<noteq> CHR ''+''
              \<and> \<not> is_digit 10 c
            \<longrightarrow> parseInt (JStr (c # rest)) = JNaN"
    using parseInt_no_digit by blast
  have others: "\<forall>b obj. parseInt (JStr ''abc'') = JNaN \<and> parseInt (JStr []) = JNaN \<and> parseInt (JBool b) = JNaN
            \<and> parseInt JNull = JNaN \<and> parseInt JUndefined = JNaN \<and> parseInt (JObj obj) = JNaN"
    using parseInt_not_a_numeral by blast
  have range: "\<forall>v. parseInt v = JNaN \<or> (\<exists>n. parseInt v = JNum n)
            \<or> (\<exists>b. parseInt v = JInf b)"
    using parseInt_number by blast
  from absent given exact no_digit others range
  have reading: "(\<forall>k d. map_of kvs k = None \<longrightarrow> pagination_value kvs k d = d)
     \<and> (\<forall>k d v. map_of kvs k = Some v \<longrightarrow> pagination_value kvs k d = parseInt v)
     \<and> (\<forall>n. \<bar>n\<bar> \<le> 9007199254740992
            \<longrightarrow> parseInt (JStr (show_int n)) = JNum n \<and> parseInt (JNum n) = JNum n)
     \<and> (\<forall>c rest. of_char c < (128 :: nat) \<and> \<not> is_space c \<and> c \<noteq> CHR ''-'' \<and> c \<noteq> CHR ''+''
              \<and> \<not> is_digit 10 c
            \<longrightarrow> parseInt (JStr (c # rest)) = JNaN)
     \<and> (\<forall>b obj. parseInt (JStr ''abc'') = JNaN \<and> parseInt (JStr []) = JNaN \<and> parseInt (JBool b) = JNaN
            \<and> parseInt JNull = JNaN \<and> parseInt JUndefined = JNaN \<and> parseInt (JObj obj) = JNaN)
     \<and> (\<forall>v. parseInt v = JNaN \<or> (\<exists>n. parseInt v = JNum n) \<or> (\<exists>b. parseInt v = JInf b))"
    by (intro conjI)
  from call reading show ?thesis
    unfolding Let_def by (rule conjI)
qed

theorem findAllFlat_pagination_witness:
  "findAllFlat (example_strapi example_config) example_env ten_comments JUndefined JUndefined JUndefined
      (JObj [(''page'', JStr ''2''), (''pageSize'', JStr ''5'')]) JUndefined
     = Inr (JObj [(''data'', JArr (map flat_comment [6, 7, 8, 9, 10])),
                  (''meta'', JObj [(''pagination'', JObj [(''page'', JNum 2), (''pageSize'', JNum 5)])])])
   \<and> findManyParams (JObj []) (JObj [])
        (fst (paginate (JObj [(''page'', JStr ''2''), (''pageSize'', JStr ''5'')]) []))
     = JObj [(''where'', JObj []), (''populate'', JObj [(''authorUser'', JBool True)]),
             (''offset'', JNum 5), (''limit'', JNum 5)]
   \<and> findManyParams (JObj []) (JObj []) (fst (paginate (JObj [(''start'', JNum 3)]) []))
     = JObj [(''where'', JObj []), (''populate'', JObj [(''authorUser'', JBool True)]),
             (''offset'', JNum 3), (''limit'', JNum 10)]
   \<and> snd (paginate (JObj [(''start'', JNum 3)]) [])
     = [(''pagination'', JObj [(''start'', JNum 3), (''limit'', JNum 10)])]
   \<and> pagination_value [(''start'', JNum 3)] ''limit'' (JNum 10) = JNum 10
   \<and> pagination_value [(''start'', JNum 3)] ''start'' (JNum 0) = JNum 3
   \<and> parseInt (JStr ''x1'') = JNaN"
proof -
  let ?S = "example_strapi example_config"
  let ?byPage = "[(''page'', JStr ''2''), (''pageSize'', JStr ''5'')]"
  let ?byOffset = "[(''start'', JNum 3)]"
  let ?R = "JObj [(''data'', JArr (map flat_comment [6, 7, 8, 9, 10])),
                  (''meta'', JObj [(''pagination'', JObj [(''page'', JNum 2), (''pageSize'', JNum 5)])])]"
  have sorted: "sortExtension example_env JUndefined = Inr []"
    by (simp add: sortExtension_def)
  have run: "findAllFlat ?S example_env ten_comments JUndefined JUndefined JUndefined (JObj ?byPage) JUndefined
      = Inr ?R"
    by code_simp
  have plain: "\<not> withCountRequested (JObj ?byPage)"
    by (simp add: withCountRequested_def)
  note page = findAllFlat_pagination [OF sorted, of ?byPage JUndefined JUndefined ?S ten_comments JUndefined]
  note offset = findAllFlat_pagination [OF sorted, of ?byOffset JUndefined JUndefined ?S ten_comments JUndefined]
  have meta: "get_prop ''meta'' ?R = JObj [(''pagination'', JObj [(''page'', JNum 2), (''pageSize'', JNum 5)])]"
    using page run plain by (simp add: Let_def pagination_value_def parseInt_eval)
  have params: "findManyParams (JObj []) (JObj []) (fst (paginate (JObj ?byPage) []))
     = JObj [(''where'', JObj []), (''populate'', JObj [(''authorUser'', JBool True)]),
             (''offset'', JNum 5), (''limit'', JNum 5)]"
    using page by (simp add: Let_def pagination_value_def default_to_def assign_all_def parseInt_eval)
  have absent: "pagination_value ?byOffset ''limit'' (JNum 10) = JNum 10"
    using offset by simp
  have three: "\<bar>3 :: int\<bar> \<le> 9007199254740992"
    by simp
  have "parseInt (JNum 3) = JNum 3"
    using offset three by blast
  moreover have "pagination_value ?byOffset ''start'' (JNum 0) = parseInt (JNum 3)"
    using offset by simp
  ultimately have given: "pagination_value ?byOffset ''start'' (JNum 0) = JNum 3"
    by simp
  have params': "findManyParams (JObj []) (JObj []) (fst (paginate (JObj ?byOffset) []))
     = JObj [(''where'', JObj []), (''populate'', JObj [(''authorUser'', JBool True)]),
             (''offset'', JNum 3), (''limit'', JNum 10)]"
    using offset absent given by (simp add: Let_def default_to_def assign_all_def)
  have meta': "snd (paginate (JObj ?byOffset) [])
     = [(''pagination'', JObj [(''start'', JNum 3), (''limit'', JNum 10)])]"
    using offset absent given by (simp add: Let_def default_to_def assign_all_def)
  have "of_char CHR ''x'' < (128 :: nat) \<and> \<not> is_space CHR ''x'' \<and> CHR ''x'' \<noteq> CHR ''-''
      \<and> CHR ''x'' \<noteq> CHR ''+'' \<and> \<not> is_digit 10 CHR ''x''"
    by (simp add: is_space_def is_digit_def digit_val_def)
  with offset have nan: "parseInt (JStr ''x1'') = JNaN"
    by blast
  from run meta params params' meta' absent given nan show ?thesis by blast
qed

text \<open>A page that is not a numeral: \<^verbatim>\<open>findAllFlat({pagination: {page: 'abc'}})\<close> asks the
  store for the offset \<^verbatim>\<open>NaN\<close>, and its response has the page \<^verbatim>\<open>NaN\<close>. The store in
  memory answers an offset that is no number from the first comment.\<close>

theorem findAllFlat_pagination_not_integer:
  "parseInt (JStr ''abc'') = JNaN
   \<and> paginate (JObj [(''page'', JStr ''abc'')]) []
       = ([(''offset'', JNaN), (''limit'', JNum 10)],
          [(''pagination'', JObj [(''page'', JNaN), (''pageSize'', JNum 10)])])
   \<and> findAllFlat (example_strapi example_config) example_env ten_comments JUndefined JUndefined JUndefined
        (JObj [(''page'', JStr ''abc'')]) JUndefined
       = Inr (JObj [(''data'', JArr (map flat_comment [1, 2, 3, 4, 5, 6, 7, 8, 9, 10])),
                    (''meta'', JObj [(''pagination'', JObj [(''page'', JNaN), (''pageSize'', JNum 10)])])])"
  by code_simp

lemma withCountRequested_object:
  "withCountRequested (JObj kvs)
     \<longleftrightarrow> map_of kvs ''withCount'' = Some (JBool True) \<or> map_of kvs ''withCount'' = Some (JStr ''true'')"
  by (auto simp add: withCountRequested_def Let_def split: option.splits)

lemma countMeta_by_page:
  "countMeta [(''pagination'', JObj [(''page'', page), (''pageSize'', pageSize)])] total' =
     [(''pagination'',
        JObj [(''page'', page), (''pageSize'', pageSize),
              (''pageCount'',
                 if \<not> isNil page
                 then (if js_strict_eq (js_rem (JNum total') pageSize) (JNum 0)
                       then js_floor_div (JNum total') pageSize
                       else js_add (js_floor_div (JNum total') pageSize) (JNum 1))
                 else JUndefined),
              (''total'', JNum total')])]"
  by (simp add: countMeta_def Let_def assign_all_def)

lemma countMeta_by_offset:
  "countMeta [(''pagination'', JObj [(''start'', start), (''limit'', limit)])] total' =
     [(''pagination'',
        JObj [(''start'', start), (''limit'', limit), (''pageCount'', JUndefined), (''total'', JNum total')])]"
  by (simp add: countMeta_def Let_def assign_all_def)

lemma js_rem_zero: "b \<noteq> 0 \<Longrightarrow> js_strict_eq (js_rem (JNum a) (JNum b)) (JNum 0) \<longleftrightarrow> b dvd a"
proof -
  assume "b \<noteq> 0"
  have "sgn a * (\<bar>a\<bar> mod \<bar>b\<bar>) = 0 \<longleftrightarrow> b dvd a"
  proof (cases "a = 0")
    case True
    then show ?thesis by simp
  next
    case False
    then have "sgn a * (\<bar>a\<bar> mod \<bar>b\<bar>) = 0 \<longleftrightarrow> \<bar>a\<bar> mod \<bar>b\<bar> = 0" by (simp add: sgn_if)
    also have "\<dots> \<longleftrightarrow> \<bar>b\<bar> dvd \<bar>a\<bar>" by (simp add: dvd_eq_mod_eq_0)
    also have "\<dots> \<longleftrightarrow> b dvd a" by simp
    finally show ?thesis .
  qed
  with \<open>b \<noteq> 0\<close> show ?thesis by (simp add: js_strict_eq_def)
qed

lemma pageCount_formula:
  assumes "pageSize \<noteq> 0"
  shows "(if js_strict_eq (js_rem (JNum total') (JNum pageSize)) (JNum 0)
    then js_floor_div (JNum total') (JNum pageSize)
    else js_add (js_floor_div (JNum total') (JNum pageSize)) (JNum 1))
   = JNum (total' div pageSize + (if pageSize dvd total' then 0 else 1))"
  unfolding js_rem_zero [OF assms, of total'] using assms by simp

lemma pagination_value_not_nil: "\<not> isNil d \<Longrightarrow> \<not> isNil (pagination_value kvs k d)"
  by (simp add: pagination_value_def parseInt_not_nil split: option.splits)

lemma findAllFlat_count_error:
  assumes "sortExtension env sortArg = Inr sortExt"
    and "q_findMany (db strapi (getModelUid env ''comment'')) s
           (findManyParams (default_to (JObj []) query0) (default_to (JObj []) populate0)
              (fst (paginate pagination sortExt))) = Inr entries"
    and "withCountRequested pagination"
    and "q_count (db strapi (getModelUid env ''comment'')) s
           (JObj [(''where'', JObj (own_entries (default_to (JObj []) query0)))]) = Inl e"
  shows "findAllFlat strapi env s query0 populate0 sortArg pagination relatedEntity0 = Inl e"
  using assms by (simp add: findAllFlat_def bindR_def Let_def case_prod_beta)

lemma where_of_findManyParams:
  "sortExt = [] \<or> (\<exists>ob. sortExt = [(''orderBy'', ob)]) \<Longrightarrow>
   get_prop ''where'' (findManyParams query populate (fst (paginate pagination sortExt)))
     = JObj (own_entries query)"
  by (auto simp add: findManyParams_def paginate_def assign_all_def Let_def)

text \<open>
  Claim C5. The count is requested by \<^verbatim>\<open>withCount\<close> being \<^verbatim>\<open>true\<close> or the string
  \<^verbatim>\<open>"true"\<close>. Then a count query runs whose \<^verbatim>\<open>where\<close> is the \<^verbatim>\<open>where\<close> of the
  \<^verbatim>\<open>findMany\<close> query (its failure is the failure of \<^verbatim>\<open>findAllFlat\<close>), the total is
  emitted, and \<^verbatim>\<open>pageCount\<close> is emitted in the page mode only, where it is
  \<^verbatim>\<open>Math.floor(total / pageSize)\<close> when \<^verbatim>\<open>total % pageSize === 0\<close> and one more
  otherwise: for a page size \<open>n \<noteq> 0\<close> that is \<open>total div n\<close>, plus one unless \<open>n\<close>
  divides the total (11 records in pages of 5 make 3 pages, 10 records make 2). Without
  the request neither \<^verbatim>\<open>total\<close> nor \<^verbatim>\<open>pageCount\<close> is emitted.
\<close>

theorem findAllFlat_withCount:
  "(withCountRequested (JObj kvs)
      \<longleftrightarrow> map_of kvs ''withCount'' = Some (JBool True) \<or> map_of kvs ''withCount'' = Some (JStr ''true''))
   \<and> (\<forall>sortExt entries.
         sortExtension env sortArg = Inr sortExt
         \<and> q_findMany (db strapi (getModelUid env ''comment'')) s
              (findManyParams (default_to (JObj []) query0) (default_to (JObj []) populate0)
                 (fst (paginate (JObj kvs) sortExt))) = Inr entries
         \<and> withCountRequested (JObj kvs)
         \<longrightarrow> get_prop ''where''
               (findManyParams (default_to (JObj []) query0) (default_to (JObj []) populate0)
                  (fst (paginate (JObj kvs) sortExt)))
              = JObj (own_entries (default_to (JObj []) query0))
             \<and> (\<forall>e. q_count (db strapi (getModelUid env ''comment'')) s
                        (JObj [(''where'', JObj (own_entries (default_to (JObj []) query0)))]) = Inl e
                   \<longrightarrow> findAllFlat strapi env s query0 populate0 sortArg (JObj kvs) relatedEntity0 = Inl e))
   \<and> (\<forall>response.
         findAllFlat strapi env s query0 populate0 sortArg (JObj kvs) relatedEntity0 = Inr response
         \<longrightarrow> (let emitted = get_prop ''pagination'' (get_prop ''meta'' response);
                   pageSize = pagination_value kvs ''pageSize'' (JNum 10);
                   byPage = (map_of kvs ''page'' \<noteq> None \<or> map_of kvs ''pageSize'' \<noteq> None)
               in if withCountRequested (JObj kvs)
                  then (\<exists>total'.
                          q_count (db strapi (getModelUid env ''comment'')) s
                            (JObj [(''where'', JObj (own_entries (default_to (JObj []) query0)))]) = Inr total'
                          \<and> get_prop ''total'' emitted = JNum total'
                          \<and> get_prop ''pageCount'' emitted
                              = (if byPage
                                 then (if js_strict_eq (js_rem (JNum total') pageSize) (JNum 0)
                                       then js_floor_div (JNum total') pageSize
                                       else js_add (js_floor_div (JNum total') pageSize) (JNum 1))
                                 else JUndefined)
                          \<and> (\<forall>n. byPage \<and> pageSize = JNum n \<and> n \<noteq> 0
                                \<longrightarrow> get_prop ''pageCount'' emitted
                                      = JNum (total' div n + (if n dvd total' then 0 else 1))))
                  else get_prop ''total'' emitted = JUndefined
                       \<and> get_prop ''pageCount'' emitted = JUndefined))"
proof (intro conjI allI impI)
  show "withCountRequested (JObj kvs)
      \<longleftrightarrow> map_of kvs ''withCount'' = Some (JBool True) \<or> map_of kvs ''withCount'' = Some (JStr ''true'')"
    by (rule withCountRequested_object)
next
  fix sortExt entries
  assume "sortExtension env sortArg = Inr sortExt
         \<and> q_findMany (db strapi (getModelUid env ''comment'')) s
              (findManyParams (default_to (JObj []) query0) (default_to (JObj []) populate0)
                 (fst (paginate (JObj kvs) sortExt))) = Inr entries
         \<and> withCountRequested (JObj kvs)"
  then show "get_prop ''where''
               (findManyParams (default_to (JObj []) query0) (default_to (JObj []) populate0)
                  (fst (paginate (JObj kvs) sortExt)))
              = JObj (own_entries (default_to (JObj []) query0))"
    using sortExtension_shape where_of_findManyParams by blast
next
  fix sortExt entries e
  assume given: "sortExtension env sortArg = Inr sortExt
         \<and> q_findMany (db strapi (getModelUid env ''comment'')) s
              (findManyParams (default_to (JObj []) query0) (default_to (JObj []) populate0)
                 (fst (paginate (JObj kvs) sortExt))) = Inr entries
         \<and> withCountRequested (JObj kvs)"
    and failed: "q_count (db strapi (getModelUid env ''comment'')) s
                        (JObj [(''where'', JObj (own_entries (default_to (JObj []) query0)))]) = Inl e"
  from given have sorted: "sortExtension env sortArg = Inr sortExt"
    and fetched: "q_findMany (db strapi (getModelUid env ''comment'')) s
              (findManyParams (default_to (JObj []) query0) (default_to (JObj []) populate0)
                 (fst (paginate (JObj kvs) sortExt))) = Inr entries"
    and requested: "withCountRequested (JObj kvs)"
    by simp_all
  show "findAllFlat strapi env s query0 populate0 sortArg (JObj kvs) relatedEntity0 = Inl e"
    by (rule findAllFlat_count_error [OF sorted fetched requested failed])
next
  fix response
  assume run: "findAllFlat strapi env s query0 populate0 sortArg (JObj kvs) relatedEntity0 = Inr response"
  let ?q = "default_to (JObj []) query0"
  let ?count = "q_count (db strapi (getModelUid env ''comment'')) s (JObj [(''where'', JObj (own_entries ?q))])"
  let ?page = "pagination_value kvs ''page'' (JNum 1)"
  let ?pageSize = "pagination_value kvs ''pageSize'' (JNum 10)"
  let ?start = "pagination_value kvs ''start'' (JNum 0)"
  let ?limit = "pagination_value kvs ''limit'' (JNum 10)"
  let ?byPage = "map_of kvs ''page'' \<noteq> None \<or> map_of kvs ''pageSize'' \<noteq> None"
  let ?emitted = "get_prop ''pagination'' (get_prop ''meta'' response)"
  let ?formula = "\<lambda>total'. if js_strict_eq (js_rem (JNum total') ?pageSize) (JNum 0)
                          then js_floor_div (JNum total') ?pageSize
                          else js_add (js_floor_div (JNum total') ?pageSize) (JNum 1)"
  from findAllFlat_Inr [OF run] obtain sortExt meta data where
    counted: "(if withCountRequested (JObj kvs)
         then bindR ?count (\<lambda>total'. Inr (countMeta (snd (paginate (JObj kvs) sortExt)) total'))
         else Inr (snd (paginate (JObj kvs) sortExt))) = Inr meta"
    and response: "response = JObj ((''data'', JArr data) # (if meta = [] then [] else [(''meta'', JObj meta)]))"
    by blast
  have paged: "snd (paginate (JObj kvs) sortExt) =
      [(''pagination'', JObj (if ?byPage then [(''page'', ?page), (''pageSize'', ?pageSize)]
                               else [(''start'', ?start), (''limit'', ?limit)]))]"
    by (simp add: paginate_object)
  have page_given: "\<not> isNil ?page"
    by (simp add: pagination_value_not_nil)
  show "let emitted = ?emitted; pageSize = ?pageSize; byPage = ?byPage
        in if withCountRequested (JObj kvs)
           then (\<exists>total'. ?count = Inr total'
                   \<and> get_prop ''total'' emitted = JNum total'
                   \<and> get_prop ''pageCount'' emitted
                       = (if byPage
                          then (if js_strict_eq (js_rem (JNum total') pageSize) (JNum 0)
                                then js_floor_div (JNum total') pageSize
                                else js_add (js_floor_div (JNum total') pageSize) (JNum 1))
                          else JUndefined)
                   \<and> (\<forall>n. byPage \<and> pageSize = JNum n \<and> n \<noteq> 0
                         \<longrightarrow> get_prop ''pageCount'' emitted
                               = JNum (total' div n + (if n dvd total' then 0 else 1))))
           else get_prop ''total'' emitted = JUndefined \<and> get_prop ''pageCount'' emitted = JUndefined"
  proof (cases "withCountRequested (JObj kvs)")
    case False
    with counted paged have "meta = [(''pagination'', JObj (if ?byPage then [(''page'', ?page), (''pageSize'', ?pageSize)]
                               else [(''start'', ?start), (''limit'', ?limit)]))]"
      by simp
    with False show ?thesis
      by (simp add: response Let_def)
  next
    case True
    with counted obtain total' where total: "?count = Inr total'"
      and meta: "meta = countMeta (snd (paginate (JObj kvs) sortExt)) total'"
      by (cases ?count) (auto simp add: bindR_def)
    have total_emitted: "get_prop ''total'' ?emitted = JNum total'"
      by (cases ?byPage) (simp_all add: response meta paged countMeta_by_page countMeta_by_offset)
    have count_emitted: "get_prop ''pageCount'' ?emitted = (if ?byPage then ?formula total' else JUndefined)"
      using page_given
      by (cases ?byPage) (simp_all add: response meta paged countMeta_by_page countMeta_by_offset)
    have rounded: "get_prop ''pageCount'' ?emitted = JNum (total' div n + (if n dvd total' then 0 else 1))"
      if "?byPage \<and> ?pageSize = JNum n \<and> n \<noteq> 0" for n
    proof -
      from that have size: "?pageSize = JNum n" and nonzero: "n \<noteq> 0" and by_page: ?byPage
        by simp_all
      have "?formula total' = JNum (total' div n + (if n dvd total' then 0 else 1))"
        unfolding size by (rule pageCount_formula [OF nonzero])
      with by_page count_emitted show ?thesis by (simp only: if_True)
    qed
    from True total total_emitted count_emitted rounded show ?thesis
      unfolding Let_def by auto
  qed
qed

theorem findAllFlat_withCount_witness:
  "findAllFlat (example_strapi example_config) example_env eleven_comments JUndefined JUndefined JUndefined
      (JObj [(''pageSize'', JStr ''5''), (''withCount'', JStr ''true'')]) JUndefined
     = Inr (JObj [(''data'', JArr (map flat_comment [1, 2, 3, 4, 5])),
                  (''meta'', JObj [(''pagination'',
                     JObj [(''page'', JNum 1), (''pageSize'', JNum 5),
                           (''pageCount'', JNum 3), (''total'', JNum 11)])])])
   \<and> findAllFlat (example_strapi example_config) example_env ten_comments JUndefined JUndefined JUndefined
      (JObj [(''pageSize'', JStr ''5''), (''withCount'', JBool True)]) JUndefined
     = Inr (JObj [(''data'', JArr (map flat_comment [1, 2, 3, 4, 5])),
                  (''meta'', JObj [(''pagination'',
                     JObj [(''page'', JNum 1), (''pageSize'', JNum 5),
                           (''pageCount'', JNum 2), (''total'', JNum 10)])])])
   \<and> findAllFlat (example_strapi example_config) example_env ten_comments JUndefined JUndefined JUndefined
      (JObj [(''limit'', JStr ''2''), (''withCount'', JBool True)]) JUndefined
     = Inr (JObj [(''data'', JArr (map flat_comment [1, 2])),
                  (''meta'', JObj [(''pagination'',
                     JObj [(''start'', JNum 0), (''limit'', JNum 2),
                           (''pageCount'', JUndefined), (''total'', JNum 10)])])])"
proof -
  let ?S = "example_strapi example_config"
  let ?eleven = "[(''pageSize'', JStr ''5''), (''withCount'', JStr ''true'')]"
  let ?ten = "[(''pageSize'', JStr ''5''), (''withCount'', JBool True)]"
  let ?R11 = "JObj [(''data'', JArr (map flat_comment [1, 2, 3, 4, 5])),
                  (''meta'', JObj [(''pagination'',
                     JObj [(''page'', JNum 1), (''pageSize'', JNum 5),
                           (''pageCount'', JNum 3), (''total'', JNum 11)])])]"
  let ?R10 = "JObj [(''data'', JArr (map flat_comment [1, 2, 3, 4, 5])),
                  (''meta'', JObj [(''pagination'',
                     JObj [(''page'', JNum 1), (''pageSize'', JNum 5),
                           (''pageCount'', JNum 2), (''total'', JNum 10)])])]"
  have run11: "findAllFlat ?S example_env eleven_comments JUndefined JUndefined JUndefined (JObj ?eleven) JUndefined
      = Inr ?R11"
    by code_simp
  have run10: "findAllFlat ?S example_env ten_comments JUndefined JUndefined JUndefined (JObj ?ten) JUndefined
      = Inr ?R10"
    by code_simp
  have offset: "findAllFlat ?S example_env ten_comments JUndefined JUndefined JUndefined
      (JObj [(''limit'', JStr ''2''), (''withCount'', JBool True)]) JUndefined
     = Inr (JObj [(''data'', JArr (map flat_comment [1, 2])),
                  (''meta'', JObj [(''pagination'',
                     JObj [(''start'', JNum 0), (''limit'', JNum 2),
                           (''pageCount'', JUndefined), (''total'', JNum 10)])])])"
    by code_simp
  have count11: "q_count (db ?S (getModelUid example_env ''comment'')) eleven_comments
      (JObj [(''where'', JObj (own_entries (default_to (JObj []) JUndefined)))]) = Inr 11"
    by code_simp
  have size: "pagination_value ?eleven ''pageSize'' (JNum 10) = JNum 5"
    by (simp add: pagination_value_def parseInt_eval)
  have requested: "withCountRequested (JObj ?eleven)"
    by (simp add: withCountRequested_def)
  have "get_prop ''pageCount'' (get_prop ''pagination'' (get_prop ''meta'' ?R11))
      = JNum (11 div 5 + (if (5::int) dvd 11 then 0 else 1))"
    using findAllFlat_withCount [of ?eleven example_env JUndefined ?S eleven_comments JUndefined JUndefined JUndefined]
      run11 count11 size requested
    by (auto simp add: Let_def)
  then have three: "get_prop ''pageCount'' (get_prop ''pagination'' (get_prop ''meta'' ?R11)) = JNum 3"
    by simp
  from run11 run10 offset three show ?thesis by blast
qed

lemma split_on_not_empty: "split_on c s \<noteq> []"
  by (induction s) (auto split: list.splits)

lemma split_on_plain: "c \<notin> set s \<Longrightarrow> split_on c s = [s]"
  by (induction s) auto

lemma split_on_append: "split_on c (a @ c # b) = split_on c a @ split_on c b"
proof (induction a)
  case Nil
  show ?case by simp
next
  case (Cons x a)
  obtain y ys where parts: "split_on c a = y # ys"
    using split_on_not_empty [of c a] by (cases "split_on c a") auto
  with Cons show ?case by simp
qed

lemma sort_parts_ascending:
  "split_on CHR '':'' (s @ '':asc'') = split_on CHR '':'' s @ [''asc'']"
proof -
  have "split_on CHR '':'' ''asc'' = [''asc'']"
    by (rule split_on_plain) simp
  then show ?thesis
    using split_on_append [of "CHR '':''" s "''asc''"] by simp
qed


lemma sort_keys_ascending:
  "sort_keys (s @ '':asc'') = split_on CHR ''.'' (join ''.'' (split_on CHR '':'' s))"
  by (simp add: sort_keys_def sort_parts_ascending)







text \<open>Whatever \<^verbatim>\<open>REGEX.sorting\<close> is, the empty sort string compiles to no ordering and
  the string \<^verbatim>\<open>:asc\<close> to one.\<close>

lemma sortExtension_empty_string:
  "sortExtension env (JStr []) = Inr [] \<and> sortExtension env (JStr '':asc'') \<noteq> Inr []"
  by (simp add: sortExtension_def orderBy_def bindR_def sort_entry_def)





lemma mapM_Inr:
  "mapM f xs = Inr ys \<Longrightarrow> length ys = length xs \<and> (\<forall>i < length xs. f (xs ! i) = Inr (ys ! i))"
proof (induction xs arbitrary: ys)
  case Nil
  then show ?case by simp
next
  case (Cons x xs)
  from Cons.prems obtain y rest where head: "f x = Inr y" and tail: "mapM f xs = Inr rest"
    and ys: "ys = y # rest"
    by (auto split: sum.splits)
  from Cons.IH [OF tail] have "length rest = length xs" and "\<forall>i < length xs. f (xs ! i) = Inr (rest ! i)"
    by simp_all
  with head ys show ?case
    by (auto simp add: nth_Cons split: nat.splits)
qed

lemma find_related_unmatched:
  "find_related entity relatedEntities = Inr found
   \<Longrightarrow> \<forall>relatedEntity \<in> set relatedEntities.
         get_prop ''related'' entity \<noteq> JStr (relationToken relatedEntity)
   \<Longrightarrow> found = JUndefined"
  by (induction relatedEntities) (auto split: if_splits)

lemma mergeRelatedEntityTo_unmatched:
  assumes "mergeRelatedEntityTo entity relatedEntities = Inr merged"
    and "\<forall>relatedEntity \<in> set relatedEntities.
           get_prop ''related'' entity \<noteq> JStr (relationToken relatedEntity)"
  shows "get_prop ''related'' merged = JUndefined"
proof -
  from assms(1) obtain found where found: "find_related entity relatedEntities = Inr found"
    and merged: "merged = JObj (assign ''related'' found (own_entries entity))"
    by (auto simp add: mergeRelatedEntityTo_def bindR_def split: sum.splits)
  from find_related_unmatched [OF found assms(2)] merged show ?thesis
    by (simp add: map_of_assign_same)
qed

text \<open>
  Claim C10. The merge step of \<^verbatim>\<open>findAllFlat\<close> runs when the list of related entities,
  the one supplied or the ones fetched, has a truthy element. Then every returned comment
  is the merge of its sanitized comment, and where no related entity has
  \<^verbatim>\<open>uid:id\<close> equal to the \<^verbatim>\<open>related\<close> token of that comment, the \<^verbatim>\<open>related\<close> of
  the returned comment is \<^verbatim>\<open>undefined\<close>: the token is not kept. When the step does
  not run, the comments are returned as they are. The second part is the same fact of
  \<^verbatim>\<open>mergeRelatedEntityTo\<close> alone.
\<close>

theorem findAllFlat_unmatched_related:
  "(\<forall>response.
      findAllFlat strapi env s query0 populate0 sortArg pagination relatedEntity0 = Inr response
      \<longrightarrow> (\<exists>sortExt entries entriesWithThreads relatedEntities result data.
             sortExtension env sortArg = Inr sortExt
             \<and> q_findMany (db strapi (getModelUid env ''comment'')) s
                  (findManyParams (default_to (JObj []) query0) (default_to (JObj []) populate0)
                     (fst (paginate pagination sortExt))) = Inr entries
             \<and> mapM (threadSummary strapi env s) entries = Inr entriesWithThreads
             \<and> (if default_to JNull relatedEntity0 \<noteq> JNull then Inr [default_to JNull relatedEntity0]
                 else findRelatedEntitiesFor strapi env s entries) = Inr relatedEntities
             \<and> mapM (flatEntry env (default_to (JObj []) query0) entriesWithThreads) entries = Inr result
             \<and> get_prop ''data'' response = JArr data
             \<and> length data = length result
             \<and> (if filter truthy relatedEntities \<noteq> []
                 then (\<forall>i < length result.
                         mergeRelatedEntityTo (result ! i) relatedEntities = Inr (data ! i)
                         \<and> ((\<forall>relatedEntity \<in> set relatedEntities.
                                get_prop ''related'' (result ! i) \<noteq> JStr (relationToken relatedEntity))
                              \<longrightarrow> get_prop ''related'' (data ! i) = JUndefined))
                 else data = result)))
   \<and> (\<forall>merged.
         mergeRelatedEntityTo entity candidates = Inr merged
         \<and> (\<forall>relatedEntity \<in> set candidates.
               get_prop ''related'' entity \<noteq> JStr (relationToken relatedEntity))
         \<longrightarrow> get_prop ''related'' merged = JUndefined)"
proof (intro conjI allI impI)
  fix response
  assume run: "findAllFlat strapi env s query0 populate0 sortArg pagination relatedEntity0 = Inr response"
  let ?q = "default_to (JObj []) query0"
  from findAllFlat_Inr [OF run] obtain sortExt entries meta ewt res result data where
    sorted: "sortExtension env sortArg = Inr sortExt"
    and fetched: "q_findMany (db strapi (getModelUid env ''comment'')) s
           (findManyParams ?q (default_to (JObj []) populate0) (fst (paginate pagination sortExt))) = Inr entries"
    and threads: "mapM (threadSummary strapi env s) entries = Inr ewt"
    and related: "(if default_to JNull relatedEntity0 \<noteq> JNull then Inr [default_to JNull relatedEntity0]
         else findRelatedEntitiesFor strapi env s entries) = Inr res"
    and flat: "mapM (flatEntry env ?q ewt) entries = Inr result"
    and merged: "(if filter truthy res \<noteq> []
         then mapM (\<lambda>comment. mergeRelatedEntityTo comment res) result
         else Inr result) = Inr data"
    and response: "response = JObj ((''data'', JArr data) # (if meta = [] then [] else [(''meta'', JObj meta)]))"
    by blast
  have data: "get_prop ''data'' response = JArr data"
    by (simp add: response)
  have outcome: "length data = length result
      \<and> (if filter truthy res \<noteq> []
          then (\<forall>i < length result.
                  mergeRelatedEntityTo (result ! i) res = Inr (data ! i)
                  \<and> ((\<forall>relatedEntity \<in> set res.
                         get_prop ''related'' (result ! i) \<noteq> JStr (relationToken relatedEntity))
                       \<longrightarrow> get_prop ''related'' (data ! i) = JUndefined))
          else data = result)"
  proof (cases "filter truthy res \<noteq> []")
    case False
    with merged show ?thesis by simp
  next
    case True
    with merged have "mapM (\<lambda>comment. mergeRelatedEntityTo comment res) result = Inr data"
      by simp
    from mapM_Inr [OF this] have len: "length data = length result"
      and each: "\<forall>i < length result. mergeRelatedEntityTo (result ! i) res = Inr (data ! i)"
      by simp_all
    from each have "\<forall>i < length result.
        (\<forall>relatedEntity \<in> set res. get_prop ''related'' (result ! i) \<noteq> JStr (relationToken relatedEntity))
        \<longrightarrow> get_prop ''related'' (data ! i) = JUndefined"
      using mergeRelatedEntityTo_unmatched by blast
    with True len each show ?thesis by simp
  qed
  from sorted fetched threads related flat data outcome
  show "\<exists>sortExt entries entriesWithThreads relatedEntities result data.
             sortExtension env sortArg = Inr sortExt
             \<and> q_findMany (db strapi (getModelUid env ''comment'')) s
                  (findManyParams (default_to (JObj []) query0) (default_to (JObj []) populate0)
                     (fst (paginate pagination sortExt))) = Inr entries
             \<and> mapM (threadSummary strapi env s) entries = Inr entriesWithThreads
             \<and> (if default_to JNull relatedEntity0 \<noteq> JNull then Inr [default_to JNull relatedEntity0]
                 else findRelatedEntitiesFor strapi env s entries) = Inr relatedEntities
             \<and> mapM (flatEntry env (default_to (JObj []) query0) entriesWithThreads) entries = Inr result
             \<and> get_prop ''data'' response = JArr data
             \<and> length data = length result
             \<and> (if filter truthy relatedEntities \<noteq> []
                 then (\<forall>i < length result.
                         mergeRelatedEntityTo (result ! i) relatedEntities = Inr (data ! i)
                         \<and> ((\<forall>relatedEntity \<in> set relatedEntities.
                                get_prop ''related'' (result ! i) \<noteq> JStr (relationToken relatedEntity))
                              \<longrightarrow> get_prop ''related'' (data ! i) = JUndefined))
                 else data = result)"
    by blast
next
  fix merged
  assume "mergeRelatedEntityTo entity candidates = Inr merged
         \<and> (\<forall>relatedEntity \<in> set candidates.
               get_prop ''related'' entity \<noteq> JStr (relationToken relatedEntity))"
  then show "get_prop ''related'' merged = JUndefined"
    using mergeRelatedEntityTo_unmatched by blast
qed

theorem findAllFlat_unmatched_related_witness:
  "findAllFlat (example_strapi example_config) example_env example_related
      JUndefined JUndefined JUndefined JUndefined JUndefined
     = Inr (JObj [(''data'', JArr
         [JObj [(''id'', JNum 1), (''threadOf'', JNull),
                (''related'', JObj [(''id'', JNum 1), (''title'', JStr ''One''), (''uid'', JStr ''article'')]),
                (''gotThread'', JBool True), (''threadFirstItemId'', JNum 2)],
          JObj [(''id'', JNum 2), (''threadOf'', JNum 1),
                (''related'', JObj [(''id'', JNum 1), (''title'', JStr ''One''), (''uid'', JStr ''article'')]),
                (''gotThread'', JBool True), (''threadFirstItemId'', JNum 3)],
          JObj [(''id'', JNum 3), (''threadOf'', JNum 2), (''related'', JUndefined),
                (''gotThread'', JBool False), (''threadFirstItemId'', JUndefined)]])])
   \<and> findAllFlat (example_strapi example_config) example_env example_related
      JUndefined JUndefined JUndefined JUndefined (JObj [(''uid'', JStr ''article''), (''id'', JNum 7)])
     = Inr (JObj [(''data'', JArr
         [JObj [(''id'', JNum 1), (''threadOf'', JNull), (''related'', JUndefined),
                (''gotThread'', JBool True), (''threadFirstItemId'', JNum 2)],
          JObj [(''id'', JNum 2), (''threadOf'', JNum 1), (''related'', JUndefined),
                (''gotThread'', JBool True), (''threadFirstItemId'', JNum 3)],
          JObj [(''id'', JNum 3), (''threadOf'', JNum 2),
                (''related'', JObj [(''uid'', JStr ''article''), (''id'', JNum 7)]),
                (''gotThread'', JBool False), (''threadFirstItemId'', JUndefined)]])])
   \<and> get_prop ''related''
        (JObj [(''id'', JNum 1), (''threadOf'', JNull), (''related'', JUndefined),
               (''gotThread'', JBool True), (''threadFirstItemId'', JNum 2)]) = JUndefined"
proof -
  let ?S = "example_strapi example_config"
  let ?supplied = "JObj [(''uid'', JStr ''article''), (''id'', JNum 7)]"
  let ?sanitized = "JObj [(''id'', JNum 1), (''threadOf'', JNull), (''related'', JStr ''article:1''),
                          (''gotThread'', JBool True), (''threadFirstItemId'', JNum 2)]"
  let ?merged = "JObj [(''id'', JNum 1), (''threadOf'', JNull), (''related'', JUndefined),
                       (''gotThread'', JBool True), (''threadFirstItemId'', JNum 2)]"
  have fetched: "findAllFlat ?S example_env example_related JUndefined JUndefined JUndefined JUndefined JUndefined
     = Inr (JObj [(''data'', JArr
         [JObj [(''id'', JNum 1), (''threadOf'', JNull),
                (''related'', JObj [(''id'', JNum 1), (''title'', JStr ''One''), (''uid'', JStr ''article'')]),
                (''gotThread'', JBool True), (''threadFirstItemId'', JNum 2)],
          JObj [(''id'', JNum 2), (''threadOf'', JNum 1),
                (''related'', JObj [(''id'', JNum 1), (''title'', JStr ''One''), (''uid'', JStr ''article'')]),
                (''gotThread'', JBool True), (''threadFirstItemId'', JNum 3)],
          JObj [(''id'', JNum 3), (''threadOf'', JNum 2), (''related'', JUndefined),
                (''gotThread'', JBool False), (''threadFirstItemId'', JUndefined)]])])"
    by code_simp
  have supplied: "findAllFlat ?S example_env example_related JUndefined JUndefined JUndefined JUndefined ?supplied
     = Inr (JObj [(''data'', JArr
         [?merged,
          JObj [(''id'', JNum 2), (''threadOf'', JNum 1), (''related'', JUndefined),
                (''gotThread'', JBool True), (''threadFirstItemId'', JNum 3)],
          JObj [(''id'', JNum 3), (''threadOf'', JNum 2),
                (''related'', JObj [(''uid'', JStr ''article''), (''id'', JNum 7)]),
                (''gotThread'', JBool False), (''threadFirstItemId'', JUndefined)]])])"
    by code_simp
  have merge: "mergeRelatedEntityTo ?sanitized [?supplied] = Inr ?merged"
    by code_simp
  have token: "relationToken ?supplied = ''article:7''"
    by code_simp
  have unmatched: "\<forall>relatedEntity \<in> set [?supplied].
      get_prop ''related'' ?sanitized \<noteq> JStr (relationToken relatedEntity)"
    by (simp add: token)
  have lost: "get_prop ''related'' ?merged = JUndefined"
    using findAllFlat_unmatched_related [of ?S example_env example_related JUndefined JUndefined JUndefined
        JUndefined JUndefined ?sanitized "[?supplied]"] merge unmatched
    by blast
  from fetched supplied lost show ?thesis by blast
qed

section \<open>The reply tree\<close>







end
